theory Spec2Isabelle
  imports Main
begin

section \<open>The datetime library, as far as the handler uses it\<close>

text \<open>
  Line 16 of the handler computes
  \<^verbatim>\<open>(datetime.utcnow() + timedelta(minutes=2)).isoformat() + 'Z'\<close>.
  The classes \<^verbatim>\<open>datetime\<close> and \<^verbatim>\<open>timedelta\<close> are the standard library's; the
  definitions of this section follow its pure-Python implementation (the proleptic
  Gregorian calendar, years 1 to 9999, no leap seconds). All quantities that occur are
  non-negative integers, so they are natural numbers here.
\<close>

datatype py_error = OverflowError | OSError | KeyboardInterrupt

record datetime =
  year :: nat
  month :: nat
  day :: nat
  hour :: nat
  minute :: nat
  second :: nat
  microsecond :: nat

record timedelta =
  days :: nat
  seconds :: nat
  microseconds :: nat

definition MINYEAR :: nat where "MINYEAR = 1"
definition MAXYEAR :: nat where "MAXYEAR = 9999"
definition MAXORDINAL :: nat where "MAXORDINAL = 3652059"

text \<open>Index 0 of the two tables is a placeholder that is never read (months are 1 to 12).\<close>

definition DAYS_IN_MONTH :: "nat list" where
  "DAYS_IN_MONTH = [0, 31, 28, 31, 30, 31, 30, 31, 31, 30, 31, 30, 31]"

definition DAYS_BEFORE_MONTH :: "nat list" where
  "DAYS_BEFORE_MONTH = [0, 0, 31, 59, 90, 120, 151, 181, 212, 243, 273, 304, 334]"

definition is_leap :: "nat \<Rightarrow> bool" where
  "is_leap y = (y mod 4 = 0 \<and> (y mod 100 \<noteq> 0 \<or> y mod 400 = 0))"

definition days_before_year :: "nat \<Rightarrow> nat" where
  "days_before_year y = (let y' = y - 1 in y' * 365 + y' div 4 - y' div 100 + y' div 400)"

definition days_in_month :: "nat \<Rightarrow> nat \<Rightarrow> nat" where
  "days_in_month y m = (if m = 2 \<and> is_leap y then 29 else DAYS_IN_MONTH ! m)"

definition days_before_month :: "nat \<Rightarrow> nat \<Rightarrow> nat" where
  "days_before_month y m = DAYS_BEFORE_MONTH ! m + (if m > 2 \<and> is_leap y then 1 else 0)"

definition ymd2ord :: "nat \<Rightarrow> nat \<Rightarrow> nat \<Rightarrow> nat" where
  "ymd2ord y m d = days_before_year y + days_before_month y m + d"

definition DI400Y :: nat where "DI400Y = days_before_year 401"
definition DI100Y :: nat where "DI100Y = days_before_year 101"
definition DI4Y :: nat where "DI4Y = days_before_year 5"

definition ord2ymd :: "nat \<Rightarrow> nat \<times> nat \<times> nat" where
  "ord2ymd n0 =
     (let n = n0 - 1;
          n400 = n div DI400Y; n = n mod DI400Y;
          y = n400 * 400 + 1;
          n100 = n div DI100Y; n = n mod DI100Y;
          n4 = n div DI4Y; n = n mod DI4Y;
          n1 = n div 365; n = n mod 365;
          y = y + n100 * 100 + n4 * 4 + n1
      in if n1 = 4 \<or> n100 = 4 then (y - 1, 12, 31)
         else
           let leapyear = (n1 = 3 \<and> (n4 \<noteq> 24 \<or> n100 = 3));
               m = (n + 50) div 32;
               preceding = DAYS_BEFORE_MONTH ! m + (if m > 2 \<and> leapyear then 1 else 0)
           in if preceding > n
              then let m = m - 1;
                       preceding = preceding - (DAYS_IN_MONTH ! m + (if m = 2 \<and> leapyear then 1 else 0))
                   in (y, m, n - preceding + 1)
              else (y, m, n - preceding + 1))"

text \<open>The class invariant of \<^verbatim>\<open>datetime\<close>: what its constructor checks.\<close>

definition valid_datetime :: "datetime \<Rightarrow> bool" where
  "valid_datetime t =
     (MINYEAR \<le> year t \<and> year t \<le> MAXYEAR \<and> 1 \<le> month t \<and> month t \<le> 12 \<and>
      1 \<le> day t \<and> day t \<le> days_in_month (year t) (month t) \<and>
      hour t < 24 \<and> minute t < 60 \<and> second t < 60 \<and> microsecond t < 1000000)"

text \<open>
  \<^verbatim>\<open>timedelta(days, seconds, microseconds, minutes=..., hours=...)\<close> on non-negative
  integers: the constructor normalises to \<open>0 \<le> seconds < 86400\<close> and
  \<open>0 \<le> microseconds < 1000000\<close>, carrying into the days.
\<close>

definition timedelta_new :: "nat \<Rightarrow> nat \<Rightarrow> nat \<Rightarrow> nat \<Rightarrow> nat \<Rightarrow> timedelta" where
  "timedelta_new d s us mins hrs =
     (let s = s + mins * 60 + hrs * 3600;
          s = s + us div 1000000;
          us = us mod 1000000
      in \<lparr>days = d + s div 86400, seconds = s mod 86400, microseconds = us\<rparr>)"

definition timedelta_add :: "timedelta \<Rightarrow> timedelta \<Rightarrow> timedelta" where
  "timedelta_add a b =
     timedelta_new (days a + days b) (seconds a + seconds b) (microseconds a + microseconds b) 0 0"

definition toordinal :: "datetime \<Rightarrow> nat" where
  "toordinal t = ymd2ord (year t) (month t) (day t)"

text \<open>\<^verbatim>\<open>datetime.__add__\<close>: raises \<^verbatim>\<open>OverflowError\<close> when the day leaves 1..MAXORDINAL.\<close>

definition datetime_add :: "datetime \<Rightarrow> timedelta \<Rightarrow> py_error + datetime" where
  "datetime_add self other =
     (let delta = timedelta_new (toordinal self) (second self) (microsecond self)
                    (minute self) (hour self);
          delta = timedelta_add delta other;
          hh = seconds delta div 3600; rem = seconds delta mod 3600;
          mm = rem div 60; ss = rem mod 60
      in if 0 < days delta \<and> days delta \<le> MAXORDINAL
         then (case ord2ymd (days delta) of
                 (y, m, d) \<Rightarrow>
                   Inr \<lparr>year = y, month = m, day = d, hour = hh, minute = mm, second = ss,
                        microsecond = microseconds delta\<rparr>)
         else Inl OverflowError)"

text \<open>The instant a (naive, UTC) datetime denotes: microseconds since the start of day 0
  of the proleptic Gregorian calendar.\<close>

definition instant :: "datetime \<Rightarrow> nat" where
  "instant t =
     ((toordinal t * 24 + hour t) * 60 + minute t) * 60000000 + second t * 1000000
       + microsecond t"


subsection \<open>Formatting: \<^verbatim>\<open>%0wd\<close> and \<^verbatim>\<open>isoformat\<close>\<close>

definition digit_char :: "nat \<Rightarrow> char" where
  "digit_char d = ''0123456789'' ! d"

fun str_nat :: "nat \<Rightarrow> string" where
  "str_nat n = (if n < 10 then [digit_char n] else str_nat (n div 10) @ [digit_char (n mod 10)])"

declare str_nat.simps [simp del]

text \<open>\<^verbatim>\<open>"%0wd" % n\<close> and \<^verbatim>\<open>"{:0wd}".format(n)\<close> for \<open>n \<ge> 0\<close>: the decimal digits, padded
  on the left with zeros to at least \<open>w\<close> characters.\<close>

definition fmt_0d :: "nat \<Rightarrow> nat \<Rightarrow> string" where
  "fmt_0d w n = (let s = str_nat n in replicate (w - length s) CHR ''0'' @ s)"

text \<open>\<^verbatim>\<open>_format_time\<close> with \<^verbatim>\<open>timespec='auto'\<close>: the fraction is written only when the
  microsecond field is not zero.\<close>

definition format_time :: "nat \<Rightarrow> nat \<Rightarrow> nat \<Rightarrow> nat \<Rightarrow> string" where
  "format_time hh mm ss us =
     (if us \<noteq> 0
      then fmt_0d 2 hh @ '':'' @ fmt_0d 2 mm @ '':'' @ fmt_0d 2 ss @ ''.'' @ fmt_0d 6 us
      else fmt_0d 2 hh @ '':'' @ fmt_0d 2 mm @ '':'' @ fmt_0d 2 ss)"

text \<open>\<^verbatim>\<open>datetime.isoformat()\<close> of a naive datetime (no UTC offset is appended).\<close>

definition isoformat :: "datetime \<Rightarrow> string" where
  "isoformat t =
     fmt_0d 4 (year t) @ ''-'' @ fmt_0d 2 (month t) @ ''-'' @ fmt_0d 2 (day t) @ ''T'' @
     format_time (hour t) (minute t) (second t) (microsecond t)"

section \<open>\<^verbatim>\<open>json.dumps\<close> of a dictionary from strings to strings\<close>

definition hex_char :: "nat \<Rightarrow> char" where
  "hex_char d = ''0123456789abcdef'' ! d"

text \<open>\<^verbatim>\<open>py_encode_basestring_ascii\<close>: the quote, the backslash and everything outside
  the range from space to tilde is escaped.\<close>

definition json_escape_char :: "char \<Rightarrow> string" where
  "json_escape_char c =
     (if c = CHR 0x5C then [CHR 0x5C, CHR 0x5C]
      else if c = CHR 0x22 then [CHR 0x5C, CHR 0x22]
      else if c = CHR 0x08 then [CHR 0x5C, CHR ''b'']
      else if c = CHR 0x0C then [CHR 0x5C, CHR ''f'']
      else if c = CHR 0x0A then [CHR 0x5C, CHR ''n'']
      else if c = CHR 0x0D then [CHR 0x5C, CHR ''r'']
      else if c = CHR 0x09 then [CHR 0x5C, CHR ''t'']
      else if (of_char c :: nat) < 0x20 \<or> 0x7E < (of_char c :: nat)
      then [CHR 0x5C, CHR ''u'', CHR ''0'', CHR ''0'',
            hex_char ((of_char c :: nat) div 16), hex_char ((of_char c :: nat) mod 16)]
      else [c])"

definition py_encode_basestring_ascii :: "string \<Rightarrow> string" where
  "py_encode_basestring_ascii s = [CHR 0x22] @ concat (map json_escape_char s) @ [CHR 0x22]"

fun str_join :: "string \<Rightarrow> string list \<Rightarrow> string" where
  "str_join sep [] = []"
| "str_join sep [x] = x"
| "str_join sep (x # y # ys) = x @ sep @ str_join sep (y # ys)"

text \<open>The default separators are \<^verbatim>\<open>', '\<close> between items and \<^verbatim>\<open>': '\<close> after a key.\<close>

definition json_dumps :: "(string \<times> string) list \<Rightarrow> string" where
  "json_dumps obj =
     ''{'' @ str_join '', ''
              (map (\<lambda>(k, v). py_encode_basestring_ascii k @ '': '' @ py_encode_basestring_ascii v) obj)
       @ ''}''"

section \<open>The request handler\<close>

text \<open>
  What a handler writes, in the order it writes it. The request is HTTP/1.0 or
  HTTP/1.1, so the status line and the headers are sent.
\<close>

datatype wire = StatusLine nat string | HeaderLine string string | EndOfHeaders | Body string

text \<open>The HTTPServer object: the state that outlives a request.\<close>

record server =
  server_address :: "string \<times> nat"
  shutdown_request :: bool
  is_shut_down :: bool

text \<open>What the library returns while one request is handled: the reading of
  \<^verbatim>\<open>datetime.utcnow()\<close>, and the values of \<^verbatim>\<open>version_string()\<close> and
  \<^verbatim>\<open>date_time_string()\<close> that \<^verbatim>\<open>send_response\<close> puts into the Server and Date headers
  (the Date header is the library's own, later reading of the clock, to the second).\<close>

record environment =
  utcnow :: datetime
  version_string :: string
  date_time_string :: string

text \<open>
  One handler object is made per request. \<open>console\<close> is the process's standard error
  stream as the handler sees it. \<open>connection\<close> is the client's socket: how many more
  writes it accepts before it is found closed (\<open>None\<close>: the client stays connected).
  \<open>warnings\<close> is what the interpreter's warnings machinery writes to standard error when
  line 16 calls \<^verbatim>\<open>datetime.utcnow()\<close>: from Python 3.12 on the \<^verbatim>\<open>DeprecationWarning\<close>, at
  the first call in the process; nothing otherwise.
\<close>

record handler =
  server :: server
  requestline :: string
  path :: string
  headers_buffer :: "wire list"
  wfile :: "wire list"
  console :: "string list"
  connection :: "nat option"
  warnings :: "string list"

text \<open>The entries of \<^verbatim>\<open>BaseHTTPRequestHandler.responses\<close> for the two codes the handler sends.\<close>

definition responses_table :: "nat \<Rightarrow> string option" where
  "responses_table code =
     (if code = 200 then Some ''OK'' else if code = 404 then Some ''Not Found'' else None)"

text \<open>\<^verbatim>\<open>MockIMDSHandler.log_message\<close> (lines 31 to 33): \<^verbatim>\<open>pass\<close>.\<close>

definition log_message :: "handler \<Rightarrow> string \<Rightarrow> string list \<Rightarrow> handler" where
  "log_message self format args = self"

text \<open>The method it overrides writes one line to standard error.\<close>

definition BaseHTTPRequestHandler_log_message :: "handler \<Rightarrow> string \<Rightarrow> string list \<Rightarrow> handler" where
  "BaseHTTPRequestHandler_log_message self format args =
     self\<lparr>console := console self @ [format @ concat args]\<rparr>"

definition log_request :: "handler \<Rightarrow> nat \<Rightarrow> handler" where
  \<open>log_request self code = log_message self ''"%s" %s %s'' [requestline self, str_nat code, ''-'']\<close>

definition send_response_only :: "handler \<Rightarrow> nat \<Rightarrow> handler" where
  "send_response_only self code =
     (let message = (case responses_table code of Some m \<Rightarrow> m | None \<Rightarrow> [])
      in self\<lparr>headers_buffer := headers_buffer self @ [StatusLine code message]\<rparr>)"

definition send_header :: "handler \<Rightarrow> string \<Rightarrow> string \<Rightarrow> handler" where
  "send_header self keyword v =
     self\<lparr>headers_buffer := headers_buffer self @ [HeaderLine keyword v]\<rparr>"

definition send_response :: "handler \<Rightarrow> environment \<Rightarrow> nat \<Rightarrow> handler" where
  "send_response self env code =
     (let self = log_request self code;
          self = send_response_only self code;
          self = send_header self ''Server'' (version_string env)
      in send_header self ''Date'' (date_time_string env))"

text \<open>
  A write to \<^verbatim>\<open>self.wfile\<close>, the unbuffered stream on the client's socket. On a socket
  that the client has closed it raises \<^verbatim>\<open>OSError\<close> (\<^verbatim>\<open>BrokenPipeError\<close>,
  \<^verbatim>\<open>ConnectionResetError\<close>) and writes nothing. A method that can raise returns the
  exception, if any, with the state it has reached.
\<close>

definition socket_write :: "handler \<Rightarrow> wire list \<Rightarrow> py_error option \<times> handler" where
  "socket_write self ws =
     (case connection self of
        None \<Rightarrow> (None, self\<lparr>wfile := wfile self @ ws\<rparr>)
      | Some 0 \<Rightarrow> (Some OSError, self)
      | Some (Suc n) \<Rightarrow> (None, self\<lparr>wfile := wfile self @ ws, connection := Some n\<rparr>))"

text \<open>\<^verbatim>\<open>end_headers\<close> appends the blank line and flushes the buffer in one write.\<close>

definition end_headers :: "handler \<Rightarrow> py_error option \<times> handler" where
  "end_headers self =
     (let self = self\<lparr>headers_buffer := headers_buffer self @ [EndOfHeaders]\<rparr>
      in case socket_write self (headers_buffer self) of
           (None, self) \<Rightarrow> (None, self\<lparr>headers_buffer := []\<rparr>)
         | (Some e, self) \<Rightarrow> (Some e, self))"

definition wfile_write :: "handler \<Rightarrow> string \<Rightarrow> py_error option \<times> handler" where
  "wfile_write self b = socket_write self [Body b]"

definition rebalance_path :: string where
  "rebalance_path = ''/latest/meta-data/rebalance-recommendation''"

text \<open>
  \<^verbatim>\<open>MockIMDSHandler.do_GET\<close> (lines 13 to 29), with the state the method has reached when
  it returns or raises. The call of \<^verbatim>\<open>datetime.utcnow()\<close> lets the interpreter write its
  warning; the addition can raise \<^verbatim>\<open>OverflowError\<close>; \<^verbatim>\<open>end_headers\<close> and
  \<^verbatim>\<open>wfile.write\<close> can raise \<^verbatim>\<open>OSError\<close>.
\<close>

definition do_GET_run :: "handler \<Rightarrow> environment \<Rightarrow> py_error option \<times> handler" where
  "do_GET_run self env =
     (if path self = ''/latest/meta-data/rebalance-recommendation'' then
        (let self = self\<lparr>console := console self @ warnings self\<rparr>
         in case datetime_add (utcnow env) (timedelta_new 0 0 0 2 0) of
              Inl e \<Rightarrow> (Some e, self)
            | Inr t \<Rightarrow>
                (let notice_time = isoformat t @ ''Z'';
                     response = [(''noticeTime'', notice_time)];
                     self = send_response self env 200;
                     self = send_header self ''Content-type'' ''application/json''
                 in case end_headers self of
                      (Some e, self) \<Rightarrow> (Some e, self)
                    | (None, self) \<Rightarrow> wfile_write self (json_dumps response)))
      else
        (let self = send_response self env 404
         in end_headers self))"

text \<open>The same as a value: the handler object when the method returns, the exception when
  it raises.\<close>

definition do_GET :: "handler \<Rightarrow> environment \<Rightarrow> py_error + handler" where
  "do_GET self env = (case do_GET_run self env of (None, h) \<Rightarrow> Inr h | (Some e, h) \<Rightarrow> Inl e)"

text \<open>
  \<^verbatim>\<open>parse_request\<close> stores the request target, query string included, in
  \<^verbatim>\<open>self.path\<close>; when the target begins with two slashes, its leading slashes are
  reduced to one.
\<close>

definition parse_request_path :: "string \<Rightarrow> string" where
  "parse_request_path target =
     (if take 2 target = ''//'' then CHR ''/'' # dropWhile (\<lambda>c. c = CHR ''/'') target
      else target)"

text \<open>
  The handler object for a GET request with the given target, on the given server and
  standard error stream, under the ordinary conditions: the client stays connected and
  the interpreter has no warning to write.
\<close>

definition new_handler :: "server \<Rightarrow> string \<Rightarrow> string list \<Rightarrow> handler" where
  "new_handler srv target err =
     \<lparr>server = srv, requestline = ''GET '' @ target @ '' HTTP/1.1'',
      path = parse_request_path target, headers_buffer = [], wfile = [], console = err,
      connection = None, warnings = []\<rparr>"

text \<open>The conditions a request is handled under, and the handler object under any of them.\<close>

record conditions =
  utcnow_warning :: "string list"
  writes_accepted :: "nat option"

definition ordinary :: conditions where
  "ordinary = \<lparr>utcnow_warning = [], writes_accepted = None\<rparr>"

definition new_handler_under :: "conditions \<Rightarrow> server \<Rightarrow> string \<Rightarrow> string list \<Rightarrow> handler" where
  "new_handler_under c srv target err =
     (new_handler srv target err)\<lparr>connection := writes_accepted c, warnings := utcnow_warning c\<rparr>"

section \<open>The process: lines 35 to 43\<close>

text \<open>
  The environment of a run: the operating system's answer to the bind of line 36, and
  the events that reach \<^verbatim>\<open>serve_forever\<close> in order. A request event is a GET request with
  its target and the library readings during its handling, under the ordinary conditions
  (\<open>Request\<close>) or under given ones (\<open>RequestUnder\<close>); \<open>Interrupt\<close> is the interrupt
  signal, which Python raises as \<^verbatim>\<open>KeyboardInterrupt\<close> in the main thread.
\<close>

datatype bind_result = Bound | AddressInUse | PermissionDenied

datatype event =
  Request string environment
| RequestUnder conditions string environment
| Interrupt

datatype status = Serving | Exited nat | Blocked

datatype outcome = Raised py_error | Returned | Waiting

text \<open>
  The process as an observer sees it: the two output streams, the number of binds
  attempted, for each accepted connection what was written to it, the status, and the
  server object (the listener) once it exists.
\<close>

record process =
  stdout :: "string list"
  stderr :: "string list"
  bind_attempts :: nat
  responses :: "wire list list"
  status :: status
  listener :: "server option"

definition traceback :: "py_error \<Rightarrow> string" where
  "traceback e =
     ''Traceback (most recent call last): '' @
     (case e of OverflowError \<Rightarrow> ''OverflowError'' | OSError \<Rightarrow> ''OSError''
      | KeyboardInterrupt \<Rightarrow> ''KeyboardInterrupt'')"

definition print :: "process \<Rightarrow> string \<Rightarrow> process" where
  "print p line = p\<lparr>stdout := stdout p @ [line]\<rparr>"

text \<open>An exception that nothing catches: the interpreter writes the traceback to standard
  error and the process ends with exit status 1.\<close>

definition uncaught :: "py_error \<Rightarrow> process \<Rightarrow> process" where
  "uncaught e p = p\<lparr>stderr := stderr p @ [traceback e], status := Exited 1\<rparr>"

text \<open>The constructor binds and listens; a failed bind raises \<^verbatim>\<open>OSError\<close>.\<close>

definition HTTPServer_new :: "bind_result \<Rightarrow> string \<times> nat \<Rightarrow> process \<Rightarrow> (py_error + server) \<times> process" where
  "HTTPServer_new os addr p =
     (let p = p\<lparr>bind_attempts := bind_attempts p + 1\<rparr>
      in case os of
           Bound \<Rightarrow>
             (Inr \<lparr>server_address = addr, shutdown_request = False, is_shut_down = False\<rparr>, p)
         | _ \<Rightarrow> (Inl OSError, p))"

text \<open>
  \<^verbatim>\<open>_handle_request_noblock\<close>: a new handler object serves the connection. An exception
  of the handler (a subclass of \<^verbatim>\<open>Exception\<close>) is reported by \<^verbatim>\<open>handle_error\<close> on
  standard error and the connection is closed; the loop goes on.
\<close>

definition handle_request_noblock :: "server \<Rightarrow> process \<Rightarrow> conditions \<Rightarrow> string \<Rightarrow> environment \<Rightarrow> server \<times> process" where
  "handle_request_noblock srv p c target env =
     (let h = new_handler_under c srv target (stderr p)
      in case do_GET_run h env of
           (None, h) \<Rightarrow>
             (server h, p\<lparr>stderr := console h, responses := responses p @ [wfile h]\<rparr>)
         | (Some e, h) \<Rightarrow>
             (server h, p\<lparr>stderr := console h @ [traceback e],
                          responses := responses p @ [wfile h]\<rparr>))"

fun serve_loop :: "server \<Rightarrow> process \<Rightarrow> event list \<Rightarrow> outcome \<times> server \<times> process" where
  "serve_loop srv p evs =
     (if shutdown_request srv then (Returned, srv, p)
      else case evs of
             [] \<Rightarrow> (Waiting, srv, p)
           | Interrupt # _ \<Rightarrow> (Raised KeyboardInterrupt, srv, p)
           | Request target env # evs' \<Rightarrow>
               (case handle_request_noblock srv p ordinary target env of
                  (srv', p') \<Rightarrow> serve_loop srv' p' evs')
           | RequestUnder c target env # evs' \<Rightarrow>
               (case handle_request_noblock srv p c target env of
                  (srv', p') \<Rightarrow> serve_loop srv' p' evs'))"

declare serve_loop.simps [simp del]

text \<open>\<^verbatim>\<open>serve_forever\<close>: the loop between \<^verbatim>\<open>__is_shut_down.clear()\<close> and the
  \<^verbatim>\<open>finally\<close> clause, which runs when the loop returns or raises.\<close>

definition serve_forever :: "server \<Rightarrow> process \<Rightarrow> event list \<Rightarrow> outcome \<times> server \<times> process" where
  "serve_forever srv p evs =
     (case serve_loop (srv\<lparr>is_shut_down := False\<rparr>) p evs of
        (Waiting, srv', p') \<Rightarrow> (Waiting, srv', p')
      | (r, srv', p') \<Rightarrow> (r, srv'\<lparr>shutdown_request := False, is_shut_down := True\<rparr>, p'))"

text \<open>\<^verbatim>\<open>shutdown\<close> sets the flag and waits for the event; \<open>None\<close> is a wait that never ends.\<close>

definition shutdown :: "server \<Rightarrow> server option" where
  "shutdown srv =
     (let srv = srv\<lparr>shutdown_request := True\<rparr>
      in if is_shut_down srv then Some srv else None)"

text \<open>Lines 35 to 43. The \<open>listener\<close> of the result is the server object as the run left it.\<close>

definition main :: "bind_result \<Rightarrow> event list \<Rightarrow> process" where
  "main os evs =
     (let p = \<lparr>stdout = [], stderr = [], bind_attempts = 0, responses = [], status = Serving,
               listener = None\<rparr>
      in case HTTPServer_new os (''localhost'', 8080) p of
           (Inl e, p) \<Rightarrow> uncaught e p
         | (Inr srv, p) \<Rightarrow>
             (let p = print p ''Mock IMDS server running on http://localhost:8080'';
                  p = print p ''Test rebalance recommendation endpoint: http://localhost:8080/latest/meta-data/rebalance-recommendation'';
                  p = print p ''Press Ctrl+C to stop''
              in (case serve_forever srv p evs of
                    (Waiting, srv, p) \<Rightarrow> p\<lparr>listener := Some srv\<rparr>
                  | (Returned, srv, p) \<Rightarrow> p\<lparr>listener := Some srv, status := Exited 0\<rparr>
                  | (Raised KeyboardInterrupt, srv, p) \<Rightarrow>
                      (case shutdown srv of
                         None \<Rightarrow> p\<lparr>listener := Some srv, status := Blocked\<rparr>
                       | Some srv \<Rightarrow> p\<lparr>listener := Some srv, status := Exited 0\<rparr>)
                  | (Raised e, srv, p) \<Rightarrow> uncaught e (p\<lparr>listener := Some srv\<rparr>))))"

section \<open>Reading a response\<close>

text \<open>How a client reads what the handler wrote: the status code of the status line, a
  header by its name (header names are case-insensitive), the body after the headers.\<close>

definition ascii_lower :: "char \<Rightarrow> char" where
  "ascii_lower c =
     (case map_of (zip ''ABCDEFGHIJKLMNOPQRSTUVWXYZ'' ''abcdefghijklmnopqrstuvwxyz'') c of
        Some l \<Rightarrow> l
      | None \<Rightarrow> c)"

definition status_code :: "wire list \<Rightarrow> nat option" where
  "status_code w = (case w of StatusLine code msg # _ \<Rightarrow> Some code | _ \<Rightarrow> None)"

fun header_value :: "string \<Rightarrow> wire list \<Rightarrow> string option" where
  "header_value name [] = None"
| "header_value name (HeaderLine k v # w) =
     (if map ascii_lower k = map ascii_lower name then Some v else header_value name w)"
| "header_value name (EndOfHeaders # w) = None"
| "header_value name (_ # w) = header_value name w"

fun body_of :: "wire list \<Rightarrow> string" where
  "body_of [] = []"
| "body_of (Body b # w) = b @ body_of w"
| "body_of (_ # w) = body_of w"

text \<open>Timestamp patterns: \<open>d\<close> in the pattern stands for one decimal digit, every other
  character for itself.\<close>

definition is_digit :: "char \<Rightarrow> bool" where
  "is_digit c = (c \<in> set ''0123456789'')"

fun matches :: "string \<Rightarrow> string \<Rightarrow> bool" where
  "matches [] [] = True"
| "matches (p # ps) (c # cs) = ((if p = CHR ''d'' then is_digit c else c = p) \<and> matches ps cs)"
| "matches _ _ = False"

definition digit_val :: "char \<Rightarrow> nat" where
  "digit_val c = of_char c - 48"

definition nat_of_digits :: "string \<Rightarrow> nat" where
  "nat_of_digits s = foldl (\<lambda>a c. 10 * a + digit_val c) 0 s"

text \<open>The noticeTime string read back as a UTC date and time.\<close>

definition parse_notice_time :: "string \<Rightarrow> datetime option" where
  "parse_notice_time s =
     (if matches ''dddd-dd-ddTdd:dd:dd.ddddddZ'' s \<or> matches ''dddd-dd-ddTdd:dd:ddZ'' s
      then Some \<lparr>year = nat_of_digits (take 4 s),
                 month = nat_of_digits (take 2 (drop 5 s)),
                 day = nat_of_digits (take 2 (drop 8 s)),
                 hour = nat_of_digits (take 2 (drop 11 s)),
                 minute = nat_of_digits (take 2 (drop 14 s)),
                 second = nat_of_digits (take 2 (drop 17 s)),
                 microsecond = (if length s = 27 then nat_of_digits (take 6 (drop 20 s)) else 0)\<rparr>
      else None)"


text \<open>The clock readings for which the notice time, two minutes later, is still a
  \<^verbatim>\<open>datetime\<close>: those before 9999-12-31T23:58:00.\<close>

definition before_overflow :: "datetime \<Rightarrow> bool" where
  "before_overflow t =
     (instant t < instant \<lparr>year = 9999, month = 12, day = 31, hour = 23, minute = 58,
                            second = 0, microsecond = 0\<rparr>)"

text \<open>A server object, a clock reading (the one of the specification's scenario) and
  library readings to evaluate the definitions on.\<close>

definition example_server :: server where
  "example_server =
     \<lparr>server_address = (''localhost'', 8080), shutdown_request = False, is_shut_down = False\<rparr>"

definition example_now :: datetime where
  "example_now =
     \<lparr>year = 2024, month = 1, day = 1, hour = 0, minute = 0, second = 0, microsecond = 0\<rparr>"

definition example_env :: "datetime \<Rightarrow> environment" where
  "example_env t =
     \<lparr>utcnow = t, version_string = ''BaseHTTP/0.6 Python/3.11.4'',
      date_time_string = ''Mon, 01 Jan 2024 00:00:00 GMT''\<rparr>"

text \<open>The month and day part of \<open>ord2ymd\<close>, on the day of the year (from 0) and the
  leap-year flag, and the property the calendar proofs need of it.\<close>

definition month_day :: "nat \<Rightarrow> bool \<Rightarrow> nat \<times> nat" where
  "month_day n leapyear =
     (let m = (n + 50) div 32;
          preceding = DAYS_BEFORE_MONTH ! m + (if m > 2 \<and> leapyear then 1 else 0)
      in if preceding > n
         then let m = m - 1;
                  preceding = preceding - (DAYS_IN_MONTH ! m + (if m = 2 \<and> leapyear then 1 else 0))
              in (m, n - preceding + 1)
         else (m, n - preceding + 1))"

definition month_day_ok :: "bool \<Rightarrow> nat \<Rightarrow> bool" where
  "month_day_ok leapyear n =
     (case month_day n leapyear of (m, d) \<Rightarrow>
        1 \<le> m \<and> m \<le> 12 \<and> 1 \<le> d \<and>
        d \<le> (if m = 2 \<and> leapyear then 29 else DAYS_IN_MONTH ! m) \<and>
        DAYS_BEFORE_MONTH ! m + (if m > 2 \<and> leapyear then 1 else 0) + d = n + 1)"

text \<open>
  The conditions of Python 3.12 at the first call of \<^verbatim>\<open>utcnow()\<close> in the process, and
  those of a client that has closed its socket after the headers were written.
\<close>

definition python312_first_call :: conditions where
  "python312_first_call =
     \<lparr>utcnow_warning = [''DeprecationWarning: datetime.datetime.utcnow() is deprecated''],
      writes_accepted = None\<rparr>"

definition client_gone :: conditions where
  "client_gone = \<lparr>utcnow_warning = [], writes_accepted = Some 1\<rparr>"

text \<open>
  An event that leaves the console as it is. An interrupt does. A request does when
  the socket accepts the writes of its response (two on the recognized path, one
  otherwise) and, on the recognized path, the interpreter has no warning to write and the
  clock reading is before the last two minutes of the year 9999.
\<close>

definition accepts :: "nat \<Rightarrow> nat option \<Rightarrow> bool" where
  "accepts n w = (case w of None \<Rightarrow> True | Some k \<Rightarrow> n \<le> k)"

definition handled_quietly :: "conditions \<Rightarrow> string \<Rightarrow> environment \<Rightarrow> bool" where
  "handled_quietly c target env =
     (if parse_request_path target = ''/latest/meta-data/rebalance-recommendation''
      then utcnow_warning c = [] \<and> valid_datetime (utcnow env) \<and> before_overflow (utcnow env) \<and>
           accepts 2 (writes_accepted c)
      else accepts 1 (writes_accepted c))"

definition undisturbed :: "event \<Rightarrow> bool" where
  "undisturbed ev =
     (case ev of
        Request target env \<Rightarrow> handled_quietly ordinary target env
      | RequestUnder c target env \<Rightarrow> handled_quietly c target env
      | Interrupt \<Rightarrow> True)"

text \<open>The request of an event: its conditions, target and readings.\<close>

definition request_of :: "event \<Rightarrow> (conditions \<times> string \<times> environment) option" where
  "request_of ev =
     (case ev of
        Request target env \<Rightarrow> Some (ordinary, target, env)
      | RequestUnder c target env \<Rightarrow> Some (c, target, env)
      | Interrupt \<Rightarrow> None)"

definition startup_lines :: "string list" where
  "startup_lines =
     [''Mock IMDS server running on http://localhost:8080'',
      ''Test rebalance recommendation endpoint: http://localhost:8080/latest/meta-data/rebalance-recommendation'',
      ''Press Ctrl+C to stop'']"

section \<open>The calendar\<close>

lemma DI_consts: "DI400Y = 146097" "DI100Y = 36524" "DI4Y = 1461"
  by (simp_all add: DI400Y_def DI100Y_def DI4Y_def days_before_year_def)

lemma dby_closed:
  assumes "b \<le> 3" "c \<le> 24" "e \<le> 3"
  shows "days_before_year (400 * a + 100 * b + 4 * c + e + 1) = 146097 * a + 36524 * b + 1461 * c + 365 * e"
proof -
  let ?y = "400 * a + 100 * b + 4 * c + e"
  have "?y = e + (100 * a + 25 * b + c) * 4" by simp
  then have d4: "?y div 4 = 100 * a + 25 * b + c" using assms by simp
  have "?y = (4 * c + e) + (4 * a + b) * 100" by simp
  then have d100: "?y div 100 = 4 * a + b" using assms by simp
  have "?y = (100 * b + 4 * c + e) + a * 400" by simp
  then have d400: "?y div 400 = a" using assms by simp
  show ?thesis
    unfolding days_before_year_def Let_def
    using d4 d100 d400 by simp
qed

lemma mod_facts: "(y::nat) mod 100 = 0 \<Longrightarrow> y mod 4 = 0" "(y::nat) mod 400 = 0 \<Longrightarrow> y mod 100 = 0"
proof -
  have a: "(4::nat) dvd 100" "(100::nat) dvd 400" by simp_all
  show "y mod 100 = 0 \<Longrightarrow> y mod 4 = 0" using a(1) by (meson dvd_trans mod_eq_0_iff_dvd)
  show "y mod 400 = 0 \<Longrightarrow> y mod 100 = 0" using a(2) by (meson dvd_trans mod_eq_0_iff_dvd)
qed

lemma dby_step:
  "days_before_year (Suc (Suc y)) = days_before_year (Suc y) + (if is_leap (Suc y) then 366 else 365)"
proof -
  define a b c where "a = y div 4" and "b = y div 100" and "c = y div 400"
  define p4 p100 p400 where "p4 = (Suc y mod 4 = 0)" and "p100 = (Suc y mod 100 = 0)"
    and "p400 = (Suc y mod 400 = 0)"
  have s4: "Suc y div 4 = a + (if p4 then 1 else 0)"
    and s100: "Suc y div 100 = b + (if p100 then 1 else 0)"
    and s400: "Suc y div 400 = c + (if p400 then 1 else 0)"
    by (simp_all add: div_Suc a_def b_def c_def p4_def p100_def p400_def)
  have le: "b \<le> y" unfolding b_def by simp
  have imp: "p100 \<longrightarrow> p4" "p400 \<longrightarrow> p100"
    using mod_facts[of "Suc y"] unfolding p4_def p100_def p400_def by blast+
  have L: "is_leap (Suc y) = (p4 \<and> (\<not> p100 \<or> p400))"
    unfolding is_leap_def p4_def p100_def p400_def by simp
  have lhs: "days_before_year (Suc (Suc y)) =
      Suc y * 365 + (a + (if p4 then 1 else 0)) - (b + (if p100 then 1 else 0)) + (c + (if p400 then 1 else 0))"
    unfolding days_before_year_def Let_def using s4 s100 s400 by simp
  have rhs: "days_before_year (Suc y) = y * 365 + a - b + c"
    unfolding days_before_year_def Let_def a_def b_def c_def by simp
  show ?thesis unfolding lhs rhs L using le imp
    by (cases p4; cases p100; cases p400; simp)
qed


lemma month_day_okI:
  assumes n: "n < (if leapyear then 366 else 365)"
  shows "month_day_ok leapyear n"
proof -
  define k where "k = (n + 50) div 32"
  have "n + 50 = 32 * k + (n + 50) mod 32" unfolding k_def by simp
  moreover have "(n + 50) mod 32 < 32" by simp
  ultimately have k1: "32 * k \<le> n + 50" and k2: "n + 50 < 32 * k + 32" by linarith+
  have n366: "n < 366" using n by (simp split: if_splits)
  have "1 \<le> k \<and> k \<le> 12" using k1 k2 n366 by linarith
  then have "k = 1 \<or> k = 2 \<or> k = 3 \<or> k = 4 \<or> k = 5 \<or> k = 6 \<or> k = 7 \<or> k = 8
     \<or> k = 9 \<or> k = 10 \<or> k = 11 \<or> k = 12" by arith
  moreover have "k = j \<Longrightarrow> j \<in> {1,2,3,4,5,6,7,8,9,10,11,12} \<Longrightarrow> month_day_ok leapyear n" for j
    using k1 k2 n
    unfolding month_day_ok_def month_day_def Let_def k_def[symmetric] DAYS_BEFORE_MONTH_def DAYS_IN_MONTH_def
    by (cases leapyear) (auto)
  ultimately show ?thesis by blast
qed


lemma mod_le_eq0: "0 < x \<Longrightarrow> x \<le> n \<Longrightarrow> ((x::nat) mod n = 0) = (x = n)"
  by (cases "x = n") auto

lemma is_leap_closed:
  assumes "b \<le> 3" "c \<le> 24" "e \<le> 3"
  shows "is_leap (400 * a + 100 * b + 4 * c + e + 1) = (e = 3 \<and> (c \<noteq> 24 \<or> b = 3))"
proof -
  let ?y = "400 * a + 100 * b + 4 * c + e + 1"
  have "?y = (e + 1) + 4 * (100 * a + 25 * b + c)" by simp
  then have m4: "?y mod 4 = (e + 1) mod 4" by (simp only: mod_mult_self2)
  have "?y = (4 * c + e + 1) + 100 * (4 * a + b)" by simp
  then have m100: "?y mod 100 = (4 * c + e + 1) mod 100" by (simp only: mod_mult_self2)
  have "?y = (100 * b + 4 * c + e + 1) + 400 * a" by simp
  then have m400: "?y mod 400 = (100 * b + 4 * c + e + 1) mod 400" by (simp only: mod_mult_self2)
  have "((e + 1) mod 4 = 0) = (e + 1 = 4)"
    using assms by (intro mod_le_eq0) simp_all
  then have e4: "((e + 1) mod 4 = 0) = (e = 3)" by simp
  have "((4 * c + e + 1) mod 100 = 0) = (4 * c + e + 1 = 100)"
    using assms by (intro mod_le_eq0) simp_all
  moreover have "(4 * c + e + 1 = 100) = (c = 24 \<and> e = 3)" using assms by linarith
  ultimately have e100: "((4 * c + e + 1) mod 100 = 0) = (c = 24 \<and> e = 3)" by simp
  have "((100 * b + 4 * c + e + 1) mod 400 = 0) = (100 * b + 4 * c + e + 1 = 400)"
    using assms by (intro mod_le_eq0) simp_all
  moreover have "(100 * b + 4 * c + e + 1 = 400) = (b = 3 \<and> c = 24 \<and> e = 3)"
    using assms by linarith
  ultimately have e400: "((100 * b + 4 * c + e + 1) mod 400 = 0) = (b = 3 \<and> c = 24 \<and> e = 3)"
    by simp
  show ?thesis unfolding is_leap_def m4 m100 m400 e4 e100 e400 by auto
qed


lemma if_pair:
  "(case (if P then (m1, d1) else (m2, d2)) of (m, d) \<Rightarrow> f m d) = (if P then f m1 d1 else f m2 d2)"
  by simp

lemma ord2ymd_alt:
  "ord2ymd n0 =
     (let n = n0 - 1;
          n400 = n div 146097; n = n mod 146097;
          y = n400 * 400 + 1;
          n100 = n div 36524; n = n mod 36524;
          n4 = n div 1461; n = n mod 1461;
          n1 = n div 365; n = n mod 365;
          y = y + n100 * 100 + n4 * 4 + n1
      in if n1 = 4 \<or> n100 = 4 then (y - 1, 12, 31)
         else case month_day n (n1 = 3 \<and> (n4 \<noteq> 24 \<or> n100 = 3)) of (m, d) \<Rightarrow> (y, m, d))"
  unfolding ord2ymd_def month_day_def Let_def DI_consts if_pair by (rule refl)


lemma ord2ymd_correct:
  assumes "1 \<le> n0"
  shows "case ord2ymd n0 of (y, m, d) \<Rightarrow>
           1 \<le> y \<and> 1 \<le> m \<and> m \<le> 12 \<and> 1 \<le> d \<and> d \<le> days_in_month y m \<and>
           ymd2ord y m d = n0"
proof -
  define n where "n = n0 - 1"
  define a where "a = n div 146097"
  define r1 where "r1 = n mod 146097"
  define b where "b = r1 div 36524"
  define r2 where "r2 = r1 mod 36524"
  define c where "c = r2 div 1461"
  define r3 where "r3 = r2 mod 1461"
  define e where "e = r3 div 365"
  define r4 where "r4 = r3 mod 365"
  define L where "L = (e = 3 \<and> (c \<noteq> 24 \<or> b = 3))"
  define Y where "Y = a * 400 + 1 + b * 100 + c * 4 + e"
  have n0: "n0 = n + 1" using assms by (simp add: n_def)
  have dn: "n = 146097 * a + r1" "r1 < 146097" unfolding a_def r1_def by simp_all
  have d1: "r1 = 36524 * b + r2" "r2 < 36524" unfolding b_def r2_def by simp_all
  have d2: "r2 = 1461 * c + r3" "r3 < 1461" unfolding c_def r3_def by simp_all
  have d3: "r3 = 365 * e + r4" "r4 < 365" unfolding e_def r4_def by simp_all
  have bnd: "b \<le> 4" "c \<le> 24" "e \<le> 4" using dn d1 d2 d3 by linarith+
  have O: "ord2ymd n0 =
      (if e = 4 \<or> b = 4 then (Y - 1, 12, 31)
       else case month_day r4 L of (m, d) \<Rightarrow> (Y, m, d))"
    unfolding ord2ymd_alt Let_def Y_def L_def r4_def e_def r3_def c_def r2_def b_def r1_def a_def n_def
    by (rule refl)
  have Y: "Y = 400 * a + 100 * b + 4 * c + e + 1" unfolding Y_def by simp
  show ?thesis
  proof (cases "b = 4")
    case True
    then have z: "r2 = 0" "c = 0" "r3 = 0" "e = 0" "r4 = 0" using dn d1 d2 d3 by linarith+
    have y: "Y - 1 = 400 * a + 100 * 3 + 4 * 24 + 3 + 1" using True z Y by simp
    have lp: "is_leap (400 * a + 100 * 3 + 4 * 24 + 3 + 1)"
      by (subst is_leap_closed) simp_all
    have db: "days_before_year (400 * a + 100 * 3 + 4 * 24 + 3 + 1) = 146097 * a + 145731"
      by (subst dby_closed) simp_all
    have "n0 = 146097 * a + 146097" using n0 dn d1 True z by simp
    then show ?thesis
      unfolding O y using True lp db
      by (simp add: ymd2ord_def days_in_month_def days_before_month_def DAYS_IN_MONTH_def DAYS_BEFORE_MONTH_def)
  next
    case b4: False
    then have b3: "b \<le> 3" using bnd by simp
    show ?thesis
    proof (cases "e = 4")
      case True
      then have z: "r4 = 0" "c \<le> 23" using dn d1 d2 d3 by linarith+
      have y: "Y - 1 = 400 * a + 100 * b + 4 * c + 3 + 1" using True Y by simp
      have lp: "is_leap (400 * a + 100 * b + 4 * c + 3 + 1)"
        using b3 z by (subst is_leap_closed) simp_all
      have db: "days_before_year (400 * a + 100 * b + 4 * c + 3 + 1) = 146097 * a + 36524 * b + 1461 * c + 1095"
        using b3 z by (subst dby_closed) simp_all
      have "n0 = 146097 * a + 36524 * b + 1461 * c + 1461" using n0 dn d1 d2 d3 True z by simp
      then show ?thesis
        unfolding O y using True lp db
        by (simp add: ymd2ord_def days_in_month_def days_before_month_def DAYS_IN_MONTH_def DAYS_BEFORE_MONTH_def)
    next
      case e4: False
      then have e3: "e \<le> 3" using bnd by simp
      have lp: "is_leap Y = L" unfolding L_def Y using b3 bnd(2) e3 by (rule is_leap_closed)
      have db: "days_before_year Y = 146097 * a + 36524 * b + 1461 * c + 365 * e"
        unfolding Y using b3 bnd(2) e3 by (rule dby_closed)
      have "r4 < (if L then 366 else 365)" using d3 by simp
      then have ok: "month_day_ok L r4" by (rule month_day_okI)
      obtain m d where md: "month_day r4 L = (m, d)" by (cases "month_day r4 L")
      have nn: "n0 = 146097 * a + 36524 * b + 1461 * c + 365 * e + r4 + 1"
        using n0 dn d1 d2 d3 by simp
      have Y1: "1 \<le> Y" unfolding Y by simp
      show ?thesis
        unfolding O using b4 e4 ok md lp db nn Y1
        by (simp add: month_day_ok_def ymd2ord_def days_in_month_def days_before_month_def)
    qed
  qed
qed

lemma dby_Suc_le: "days_before_year y \<le> days_before_year (Suc y)"
proof (cases y)
  case 0
  then show ?thesis by (simp add: days_before_year_def)
next
  case (Suc k)
  then show ?thesis using dby_step[of k] by simp
qed

lemma dby_mono: "y \<le> y' \<Longrightarrow> days_before_year y \<le> days_before_year y'"
  by (rule lift_Suc_mono_le[of days_before_year]) (simp_all add: dby_Suc_le)

lemma dby_next: "1 \<le> y \<Longrightarrow> days_before_year (Suc y) = days_before_year y + (if is_leap y then 366 else 365)"
  using dby_step[of "y - 1"] by simp

lemma dbm_step:
  assumes "1 \<le> m" "m \<le> 11"
  shows "days_before_month y (Suc m) = days_before_month y m + days_in_month y m"
proof -
  have "m = 1 \<or> m = 2 \<or> m = 3 \<or> m = 4 \<or> m = 5 \<or> m = 6 \<or> m = 7 \<or> m = 8 \<or> m = 9 \<or> m = 10 \<or> m = 11"
    using assms by arith
  then show ?thesis
    by (elim disjE) (simp_all add: days_before_month_def days_in_month_def DAYS_BEFORE_MONTH_def
        DAYS_IN_MONTH_def eval_nat_numeral)
qed

lemma dbm_12: "days_before_month y 12 + days_in_month y 12 = (if is_leap y then 366 else 365)"
  by (simp add: days_before_month_def days_in_month_def DAYS_BEFORE_MONTH_def DAYS_IN_MONTH_def)

lemma dbm_mono:
  assumes "1 \<le> m" "m \<le> m'" "m' \<le> 12"
  shows "days_before_month y m \<le> days_before_month y m'"
  using assms(2,1,3)
proof (induction m' rule: dec_induct)
  case base
  then show ?case by simp
next
  case (step k)
  then have "days_before_month y (Suc k) = days_before_month y k + days_in_month y k"
    by (intro dbm_step) simp_all
  with step show ?case by simp
qed

lemma dim_pos: "1 \<le> m \<Longrightarrow> m \<le> 12 \<Longrightarrow> 28 \<le> days_in_month y m"
proof -
  assume a: "1 \<le> m" "m \<le> 12"
  then have "m = 1 \<or> m = 2 \<or> m = 3 \<or> m = 4 \<or> m = 5 \<or> m = 6 \<or> m = 7 \<or> m = 8 \<or> m = 9 \<or> m = 10 \<or> m = 11 \<or> m = 12"
    by arith
  then show ?thesis
    by (elim disjE) (simp_all add: days_in_month_def DAYS_IN_MONTH_def)
qed

text \<open>The end of month m is no later than the start of any later month.\<close>
lemma dbm_end_le:
  assumes "1 \<le> m" "m < m'" "m' \<le> 12"
  shows "days_before_month y m + days_in_month y m \<le> days_before_month y m'"
proof -
  have "days_before_month y m + days_in_month y m = days_before_month y (Suc m)"
    using assms by (simp add: dbm_step)
  also have "\<dots> \<le> days_before_month y m'" using assms by (intro dbm_mono) simp_all
  finally show ?thesis .
qed

lemma day_of_year_le:
  assumes "1 \<le> m" "m \<le> 12" "d \<le> days_in_month y m"
  shows "days_before_month y m + d \<le> (if is_leap y then 366 else 365)"
proof (cases "m = 12")
  case True
  then show ?thesis using assms dbm_12[of y] by simp
next
  case False
  then have "days_before_month y m + days_in_month y m \<le> days_before_month y 12"
    using assms by (intro dbm_end_le) simp_all
  then show ?thesis using assms dbm_12[of y] by (simp split: if_splits)
qed

lemma ymd2ord_bounds:
  assumes "1 \<le> y" "1 \<le> m" "m \<le> 12" "1 \<le> d" "d \<le> days_in_month y m"
  shows "days_before_year y < ymd2ord y m d" "ymd2ord y m d \<le> days_before_year (Suc y)"
  using assms day_of_year_le[of m d y] dby_next[of y]
  by (simp_all add: ymd2ord_def split: if_splits)

lemma ymd2ord_inj:
  assumes v: "1 \<le> y" "1 \<le> m" "m \<le> 12" "1 \<le> d" "d \<le> days_in_month y m"
    and v': "1 \<le> y'" "1 \<le> m'" "m' \<le> 12" "1 \<le> d'" "d' \<le> days_in_month y' m'"
    and eq: "ymd2ord y m d = ymd2ord y' m' d'"
  shows "y = y' \<and> m = m' \<and> d = d'"
proof -
  have yy: "y = y'"
  proof (rule ccontr)
    assume "y \<noteq> y'"
    then consider "y < y'" | "y' < y" by linarith
    then show False
    proof cases
      case 1
      then have "days_before_year (Suc y) \<le> days_before_year y'" by (intro dby_mono) simp
      then show False using ymd2ord_bounds(2)[OF v] ymd2ord_bounds(1)[OF v'] eq by simp
    next
      case 2
      then have "days_before_year (Suc y') \<le> days_before_year y" by (intro dby_mono) simp
      then show False using ymd2ord_bounds(2)[OF v'] ymd2ord_bounds(1)[OF v] eq by simp
    qed
  qed
  have e2: "days_before_month y m + d = days_before_month y m' + d'"
    using eq yy by (simp add: ymd2ord_def)
  have mm: "m = m'"
  proof (rule ccontr)
    assume "m \<noteq> m'"
    then consider "m < m'" | "m' < m" by linarith
    then show False
    proof cases
      case 1
      then show False using dbm_end_le[of m m' y] v v' e2 by simp
    next
      case 2
      then show False using dbm_end_le[of m' m y] v v' e2 yy by simp
    qed
  qed
  show ?thesis using yy mm e2 by simp
qed

lemma MAXORDINAL_dby: "days_before_year 10000 = MAXORDINAL"
  by (simp add: days_before_year_def MAXORDINAL_def)

lemma ymd2ord_le_MAX:
  assumes "1 \<le> y" "y \<le> 9999" "1 \<le> m" "m \<le> 12" "1 \<le> d" "d \<le> days_in_month y m"
  shows "ymd2ord y m d \<le> MAXORDINAL"
proof -
  have "ymd2ord y m d \<le> days_before_year (Suc y)" using assms by (intro ymd2ord_bounds) simp_all
  also have "\<dots> \<le> days_before_year 10000" using assms by (intro dby_mono) simp
  finally show ?thesis by (simp add: MAXORDINAL_dby)
qed

lemma year_le_MAX:
  assumes "1 \<le> y" "1 \<le> m" "m \<le> 12" "1 \<le> d" "d \<le> days_in_month y m"
    "ymd2ord y m d \<le> MAXORDINAL"
  shows "y \<le> 9999"
proof (rule ccontr)
  assume "\<not> y \<le> 9999"
  then have "days_before_year 10000 \<le> days_before_year y" by (intro dby_mono) simp
  then show False using ymd2ord_bounds(1)[of y m d] assms by (simp add: MAXORDINAL_dby)
qed

lemma toordinal_bounds:
  assumes "valid_datetime t"
  shows "1 \<le> toordinal t" "toordinal t \<le> MAXORDINAL"
proof -
  have v: "1 \<le> year t" "year t \<le> 9999" "1 \<le> month t" "month t \<le> 12" "1 \<le> day t"
    "day t \<le> days_in_month (year t) (month t)"
    using assms by (simp_all add: valid_datetime_def MINYEAR_def MAXYEAR_def)
  show "1 \<le> toordinal t" using ymd2ord_bounds(1)[OF v(1,3,4,5,6)] by (simp add: toordinal_def)
  show "toordinal t \<le> MAXORDINAL" unfolding toordinal_def using v by (intro ymd2ord_le_MAX)
qed

lemma hms_split:
  fixes r :: nat
  shows "r div 3600 * 3600 + r mod 3600 div 60 * 60 + r mod 3600 mod 60 = r"
proof -
  have "r mod 3600 div 60 * 60 + r mod 3600 mod 60 = r mod 3600" by simp
  then show ?thesis by (metis add.assoc div_mult_mod_eq)
qed

lemma instant_alt:
  "instant t = (toordinal t * 86400 + hour t * 3600 + minute t * 60 + second t) * 1000000
                 + microsecond t"
  by (simp add: instant_def algebra_simps)

lemma datetime_add_unfold:
  assumes "valid_datetime t"
  shows "datetime_add t (timedelta_new 0 0 0 2 0) =
     (let s = hour t * 3600 + minute t * 60 + second t + 120;
          n = toordinal t + s div 86400; r = s mod 86400
      in if n \<le> MAXORDINAL
         then (case ord2ymd n of (y, m, d) \<Rightarrow>
                 Inr \<lparr>year = y, month = m, day = d, hour = r div 3600, minute = r mod 3600 div 60,
                      second = r mod 3600 mod 60, microsecond = microsecond t\<rparr>)
         else Inl OverflowError)"
proof -
  have b: "hour t < 24" "minute t < 60" "second t < 60" "microsecond t < 1000000"
    using assms by (simp_all add: valid_datetime_def)
  have s: "second t + minute t * 60 + hour t * 3600 < 86400" using b by linarith
  have d0: "timedelta_new (toordinal t) (second t) (microsecond t) (minute t) (hour t) =
      \<lparr>days = toordinal t, seconds = second t + minute t * 60 + hour t * 3600,
       microseconds = microsecond t\<rparr>"
    using b s by (simp add: timedelta_new_def Let_def)
  have two: "timedelta_new 0 0 0 2 0 = \<lparr>days = 0, seconds = 120, microseconds = 0\<rparr>"
    by (simp add: timedelta_new_def Let_def)
  have c: "second t + minute t * 60 + hour t * 3600 + 120 = hour t * 3600 + minute t * 60 + second t + 120"
    by simp
  have pos: "0 < toordinal t + k" for k using toordinal_bounds(1)[OF assms] by simp
  show ?thesis
    unfolding datetime_add_def d0 two timedelta_add_def
    using b pos by (simp add: timedelta_new_def Let_def c)
qed

lemma lt_scale:
  fixes a b c u :: nat
  assumes "u < c"
  shows "(a * c + u < b * c) = (a < b)"
proof
  assume l: "a * c + u < b * c"
  show "a < b"
  proof (rule ccontr)
    assume "\<not> a < b"
    then have "b * c \<le> a * c" by (intro mult_le_mono1) simp
    with l show False by simp
  qed
next
  assume "a < b"
  then have "Suc a * c \<le> b * c" by (intro mult_le_mono1) simp
  then show "a * c + u < b * c" using assms by simp
qed

lemma before_overflow_iff:
  assumes "valid_datetime t"
  shows "before_overflow t =
     (toordinal t + (hour t * 3600 + minute t * 60 + second t + 120) div 86400 \<le> MAXORDINAL)"
proof -
  define T where "T = toordinal t * 86400 + hour t * 3600 + minute t * 60 + second t"
  define q where "q = (hour t * 3600 + minute t * 60 + second t + 120) div 86400"
  define r where "r = (hour t * 3600 + minute t * 60 + second t + 120) mod 86400"
  have us: "microsecond t < 1000000" using assms by (simp add: valid_datetime_def)
  have X: "instant \<lparr>year = 9999, month = 12, day = 31, hour = 23, minute = 58, second = 0,
      microsecond = 0\<rparr> = (MAXORDINAL * 86400 + 86280) * 1000000"
    by (simp add: instant_def toordinal_def ymd2ord_def days_before_year_def days_before_month_def
        is_leap_def DAYS_BEFORE_MONTH_def MAXORDINAL_def)
  have "before_overflow t = (T * 1000000 + microsecond t < (MAXORDINAL * 86400 + 86280) * 1000000)"
    unfolding before_overflow_def X unfolding instant_alt T_def by simp
  also have "\<dots> = (T < MAXORDINAL * 86400 + 86280)" using us by (rule lt_scale)
  also have "\<dots> = (T + 120 < (MAXORDINAL + 1) * 86400)" by (simp add: algebra_simps)
  also have "\<dots> = (toordinal t + q \<le> MAXORDINAL)"
  proof -
    have e: "T + 120 = (toordinal t + q) * 86400 + r" "r < 86400"
      unfolding T_def q_def r_def by (simp_all add: algebra_simps)
    have "((toordinal t + q) * 86400 + r < (MAXORDINAL + 1) * 86400) = (toordinal t + q < MAXORDINAL + 1)"
      using e(2) by (rule lt_scale)
    also have "\<dots> = (toordinal t + q \<le> MAXORDINAL)" by linarith
    finally show ?thesis unfolding e(1) .
  qed
  finally show ?thesis unfolding q_def .
qed

lemma datetime_add_overflow:
  assumes "valid_datetime t" "\<not> before_overflow t"
  shows "datetime_add t (timedelta_new 0 0 0 2 0) = Inl OverflowError"
  using assms by (simp add: datetime_add_unfold before_overflow_iff Let_def)

lemma datetime_add_ok:
  assumes v: "valid_datetime t" and b: "before_overflow t"
  shows "\<exists>d. datetime_add t (timedelta_new 0 0 0 2 0) = Inr d \<and> valid_datetime d \<and>
             instant d = instant t + 120000000 \<and> microsecond d = microsecond t"
proof -
  define s where "s = hour t * 3600 + minute t * 60 + second t + 120"
  define n where "n = toordinal t + s div 86400"
  define r where "r = s mod 86400"
  obtain y m d where o: "ord2ymd n = (y, m, d)" by (cases "ord2ymd n") auto
  define D where "D = \<lparr>year = y, month = m, day = d, hour = r div 3600, minute = r mod 3600 div 60,
                      second = r mod 3600 mod 60, microsecond = microsecond t\<rparr>"
  have nle: "n \<le> MAXORDINAL" using b unfolding before_overflow_iff[OF v] n_def s_def .
  have n1: "1 \<le> n" using toordinal_bounds(1)[OF v] by (simp add: n_def)
  have add: "datetime_add t (timedelta_new 0 0 0 2 0) = Inr D"
    using nle o by (simp add: datetime_add_unfold[OF v] Let_def s_def[symmetric] n_def[symmetric]
        r_def[symmetric] D_def)
  from ord2ymd_correct[OF n1] o have c: "1 \<le> y" "1 \<le> m" "m \<le> 12" "1 \<le> d"
    "d \<le> days_in_month y m" "ymd2ord y m d = n" by simp_all
  have y9: "y \<le> 9999" using year_le_MAX[OF c(1-5)] c(6) nle by simp
  have rl: "r < 86400" by (simp add: r_def)
  then have h24: "r div 3600 < 24" by (simp add: div_less_iff_less_mult)
  have us: "microsecond t < 1000000" using v by (simp add: valid_datetime_def)
  have vD: "valid_datetime D"
    using c y9 h24 us by (simp add: valid_datetime_def D_def MINYEAR_def MAXYEAR_def)
  have "toordinal D * 86400 + hour D * 3600 + minute D * 60 + second D = n * 86400 + r"
    using hms_split[of r] c(6) by (simp add: D_def toordinal_def)
  also have "\<dots> = toordinal t * 86400 + s"
    unfolding n_def r_def by (simp add: algebra_simps)
  finally have "instant D = instant t + 120000000"
    unfolding instant_alt s_def by (simp add: D_def)
  then show ?thesis using add vD by (auto simp: D_def)
qed

lemma divmod_base:
  fixes u c a :: nat
  assumes "u < c"
  shows "(u + c * a) mod c = u" "(u + c * a) div c = a"
  using assms by simp_all

lemma instant_fields:
  assumes "valid_datetime t"
  shows "microsecond t = instant t mod 1000000"
    "second t = instant t div 1000000 mod 60"
    "minute t = instant t div 1000000 div 60 mod 60"
    "hour t = instant t div 1000000 div 60 div 60 mod 24"
    "toordinal t = instant t div 1000000 div 60 div 60 div 24"
proof -
  have b: "hour t < 24" "minute t < 60" "second t < 60" "microsecond t < 1000000"
    using assms by (simp_all add: valid_datetime_def)
  define C where "C = hour t + 24 * toordinal t"
  define B where "B = minute t + 60 * C"
  define A where "A = second t + 60 * B"
  have i: "instant t = microsecond t + 1000000 * A"
    by (simp add: instant_def A_def B_def C_def algebra_simps)
  show "microsecond t = instant t mod 1000000" unfolding i using b by simp
  have a: "instant t div 1000000 = A" unfolding i using b by simp
  show "second t = instant t div 1000000 mod 60" unfolding a A_def using b by simp
  have b': "A div 60 = B" unfolding A_def using b by simp
  show "minute t = instant t div 1000000 div 60 mod 60" unfolding a b' B_def using b by simp
  have c: "B div 60 = C" unfolding B_def using b by simp
  show "hour t = instant t div 1000000 div 60 div 60 mod 24" unfolding a b' c C_def using b by simp
  show "toordinal t = instant t div 1000000 div 60 div 60 div 24" unfolding a b' c C_def using b by simp
qed


lemma instant_inj:
  assumes "valid_datetime t" "valid_datetime t'" "instant t = instant t'"
  shows "t = t'"
proof -
  note a = instant_fields[OF assms(1)] and b = instant_fields[OF assms(2)]
  have f: "microsecond t = microsecond t'" "second t = second t'" "minute t = minute t'"
    "hour t = hour t'" "toordinal t = toordinal t'"
    by (simp_all only: a(1) b(1) a(2) b(2) a(3) b(3) a(4) b(4) a(5) b(5) assms(3))
  have v: "1 \<le> year t" "1 \<le> month t" "month t \<le> 12" "1 \<le> day t"
    "day t \<le> days_in_month (year t) (month t)"
    using assms(1) by (simp_all add: valid_datetime_def MINYEAR_def)
  have v': "1 \<le> year t'" "1 \<le> month t'" "month t' \<le> 12" "1 \<le> day t'"
    "day t' \<le> days_in_month (year t') (month t')"
    using assms(2) by (simp_all add: valid_datetime_def MINYEAR_def)
  have "year t = year t' \<and> month t = month t' \<and> day t = day t'"
    using ymd2ord_inj[OF v v'] f(5) by (simp add: toordinal_def)
  then show ?thesis using f by (intro datetime.equality) simp_all
qed

section \<open>The timestamp format\<close>

lemma lt10_cases: "d < 10 \<Longrightarrow> d = 0 \<or> d = 1 \<or> d = 2 \<or> d = 3 \<or> d = 4 \<or> d = 5 \<or> d = 6 \<or> d = 7 \<or> d = 8 \<or> d = (9::nat)"
  by arith

lemma digit_char_props:
  assumes "d < 10"
  shows "is_digit (digit_char d)" "digit_val (digit_char d) = d"
  using lt10_cases[OF assms]
  by (auto simp: digit_char_def is_digit_def digit_val_def)

lemma is_digit_cases:
  "is_digit c \<Longrightarrow> c = CHR ''0'' \<or> c = CHR ''1'' \<or> c = CHR ''2'' \<or> c = CHR ''3'' \<or> c = CHR ''4'' \<or>
     c = CHR ''5'' \<or> c = CHR ''6'' \<or> c = CHR ''7'' \<or> c = CHR ''8'' \<or> c = CHR ''9''"
  by (auto simp: is_digit_def)

lemma json_escape_digit: "is_digit c \<Longrightarrow> json_escape_char c = [c]"
  by (drule is_digit_cases) (auto simp: json_escape_char_def)

lemma str_nat_digits: "c \<in> set (str_nat n) \<Longrightarrow> is_digit c"
proof (induction n rule: str_nat.induct)
  case (1 n)
  show ?case
  proof (cases "n < 10")
    case True
    with "1.prems" show ?thesis by (simp add: str_nat.simps[of n] digit_char_props)
  next
    case False
    with "1.prems" "1.IH" show ?thesis
      by (auto simp: str_nat.simps[of n] digit_char_props)
  qed
qed

lemma nat_of_digits_snoc: "nat_of_digits (s @ [c]) = 10 * nat_of_digits s + digit_val c"
  by (simp add: nat_of_digits_def)

lemma str_nat_value: "nat_of_digits (str_nat n) = n"
proof (induction n rule: str_nat.induct)
  case (1 n)
  show ?case
  proof (cases "n < 10")
    case True
    then show ?thesis by (simp add: str_nat.simps[of n] nat_of_digits_def digit_char_props)
  next
    case False
    with "1.IH" show ?thesis
      by (simp add: str_nat.simps[of n] nat_of_digits_snoc digit_char_props)
  qed
qed

lemma str_nat_length: "0 < w \<Longrightarrow> n < 10 ^ w \<Longrightarrow> length (str_nat n) \<le> w"
proof (induction n arbitrary: w rule: str_nat.induct)
  case (1 n)
  show ?case
  proof (cases "n < 10")
    case True
    with "1.prems" show ?thesis by (simp add: str_nat.simps[of n])
  next
    case False
    then obtain v where w: "w = Suc v" using "1.prems" by (cases w) auto
    have v0: "0 < v" using False "1.prems" w by (cases v) auto
    have "n div 10 < 10 ^ v" using "1.prems" w by (simp add: less_mult_imp_div_less mult.commute)
    with "1.IH"[OF False v0] have "length (str_nat (n div 10)) \<le> v" by simp
    with False w show ?thesis by (simp add: str_nat.simps[of n])
  qed
qed

lemma nat_of_digits_zeros: "nat_of_digits (replicate k CHR ''0'' @ s) = nat_of_digits s"
proof -
  have "foldl (\<lambda>a c. 10 * a + digit_val c) 0 (replicate k CHR ''0'') = 0"
    by (induction k) (simp_all add: digit_val_def)
  then show ?thesis by (simp add: nat_of_digits_def)
qed

lemma fmt_0d_props:
  assumes "0 < w" "n < 10 ^ w"
  shows "length (fmt_0d w n) = w" "\<forall>c \<in> set (fmt_0d w n). is_digit c"
    "nat_of_digits (fmt_0d w n) = n"
proof -
  have l: "length (str_nat n) \<le> w" using assms by (rule str_nat_length)
  show "length (fmt_0d w n) = w" using l by (simp add: fmt_0d_def Let_def)
  have "is_digit CHR ''0''" by (simp add: is_digit_def)
  then show "\<forall>c \<in> set (fmt_0d w n). is_digit c"
    by (auto simp: fmt_0d_def Let_def str_nat_digits)
  show "nat_of_digits (fmt_0d w n) = n"
    by (simp add: fmt_0d_def Let_def nat_of_digits_zeros str_nat_value)
qed

lemma fmt2:
  assumes "n < 100"
  obtains a b where "fmt_0d 2 n = [a, b]" "is_digit a" "is_digit b" "nat_of_digits [a, b] = n"
proof -
  have p: "length (fmt_0d 2 n) = 2" "\<forall>c \<in> set (fmt_0d 2 n). is_digit c" "nat_of_digits (fmt_0d 2 n) = n"
    using fmt_0d_props[of 2 n] assms by simp_all
  from p(1) obtain a b where "fmt_0d 2 n = [a, b]"
    by (auto simp: length_Suc_conv eval_nat_numeral)
  with p that show ?thesis by auto
qed

lemma fmt4:
  assumes "n < 10000"
  obtains a b c d where "fmt_0d 4 n = [a, b, c, d]" "is_digit a" "is_digit b" "is_digit c"
    "is_digit d" "nat_of_digits [a, b, c, d] = n"
proof -
  have p: "length (fmt_0d 4 n) = 4" "\<forall>c \<in> set (fmt_0d 4 n). is_digit c" "nat_of_digits (fmt_0d 4 n) = n"
    using fmt_0d_props[of 4 n] assms by simp_all
  from p(1) obtain a b c d where "fmt_0d 4 n = [a, b, c, d]"
    by (auto simp: length_Suc_conv eval_nat_numeral)
  with p that show ?thesis by auto
qed

lemma fmt6:
  assumes "n < 1000000"
  obtains a b c d e f where "fmt_0d 6 n = [a, b, c, d, e, f]" "is_digit a" "is_digit b"
    "is_digit c" "is_digit d" "is_digit e" "is_digit f" "nat_of_digits [a, b, c, d, e, f] = n"
proof -
  have p: "length (fmt_0d 6 n) = 6" "\<forall>c \<in> set (fmt_0d 6 n). is_digit c" "nat_of_digits (fmt_0d 6 n) = n"
    using fmt_0d_props[of 6 n] assms by simp_all
  from p(1) obtain a b c d e f where "fmt_0d 6 n = [a, b, c, d, e, f]"
    by (auto simp: length_Suc_conv eval_nat_numeral)
  with p that show ?thesis by auto
qed


lemma days_in_month_le:
  assumes "1 \<le> m" "m \<le> 12"
  shows "days_in_month y m \<le> 31"
proof -
  have "m = 1 \<or> m = 2 \<or> m = 3 \<or> m = 4 \<or> m = 5 \<or> m = 6 \<or> m = 7 \<or> m = 8 \<or> m = 9 \<or> m = 10 \<or> m = 11 \<or> m = 12"
    using assms by arith
  then show ?thesis
    by (elim disjE) (simp_all add: days_in_month_def DAYS_IN_MONTH_def)
qed

lemma json_escape_punct:
  "json_escape_char CHR ''-'' = ''-''" "json_escape_char CHR ''T'' = ''T''"
  "json_escape_char CHR '':'' = '':''" "json_escape_char CHR ''.'' = ''.''"
  "json_escape_char CHR ''Z'' = ''Z''"
  by (simp_all add: json_escape_char_def)

lemma isoformat_Z:
  assumes v: "valid_datetime t"
  shows "matches (if microsecond t = 0 then ''dddd-dd-ddTdd:dd:ddZ''
                  else ''dddd-dd-ddTdd:dd:dd.ddddddZ'') (isoformat t @ ''Z'')"
    and "parse_notice_time (isoformat t @ ''Z'') = Some t"
    and "concat (map json_escape_char (isoformat t @ ''Z'')) = isoformat t @ ''Z''"
    and "\<forall>c \<in> set (isoformat t @ ''Z''). is_digit c \<or> c \<in> set ''-T:.Z''"
proof -
  have b: "year t < 10000" "month t < 100" "day t < 100" "hour t < 100" "minute t < 100"
    "second t < 100" "microsecond t < 1000000"
    using v days_in_month_le[of "month t" "year t"]
    by (simp_all add: valid_datetime_def MAXYEAR_def)
  obtain y1 y2 y3 y4 where Y: "fmt_0d 4 (year t) = [y1, y2, y3, y4]" "is_digit y1" "is_digit y2"
    "is_digit y3" "is_digit y4" "nat_of_digits [y1, y2, y3, y4] = year t"
    by (rule fmt4[OF b(1)])
  obtain m1 m2 where M: "fmt_0d 2 (month t) = [m1, m2]" "is_digit m1" "is_digit m2"
    "nat_of_digits [m1, m2] = month t"
    by (rule fmt2[OF b(2)])
  obtain d1 d2 where D: "fmt_0d 2 (day t) = [d1, d2]" "is_digit d1" "is_digit d2"
    "nat_of_digits [d1, d2] = day t"
    by (rule fmt2[OF b(3)])
  obtain h1 h2 where H: "fmt_0d 2 (hour t) = [h1, h2]" "is_digit h1" "is_digit h2"
    "nat_of_digits [h1, h2] = hour t"
    by (rule fmt2[OF b(4)])
  obtain i1 i2 where I: "fmt_0d 2 (minute t) = [i1, i2]" "is_digit i1" "is_digit i2"
    "nat_of_digits [i1, i2] = minute t"
    by (rule fmt2[OF b(5)])
  obtain s1 s2 where S: "fmt_0d 2 (second t) = [s1, s2]" "is_digit s1" "is_digit s2"
    "nat_of_digits [s1, s2] = second t"
    by (rule fmt2[OF b(6)])
  obtain u1 u2 u3 u4 u5 u6 where U: "fmt_0d 6 (microsecond t) = [u1, u2, u3, u4, u5, u6]"
    "is_digit u1" "is_digit u2" "is_digit u3" "is_digit u4" "is_digit u5" "is_digit u6"
    "nat_of_digits [u1, u2, u3, u4, u5, u6] = microsecond t"
    by (rule fmt6[OF b(7)])
  have iso: "isoformat t @ ''Z'' =
      (if microsecond t = 0
       then [y1, y2, y3, y4, CHR ''-'', m1, m2, CHR ''-'', d1, d2, CHR ''T'', h1, h2, CHR '':'',
             i1, i2, CHR '':'', s1, s2, CHR ''Z'']
       else [y1, y2, y3, y4, CHR ''-'', m1, m2, CHR ''-'', d1, d2, CHR ''T'', h1, h2, CHR '':'',
             i1, i2, CHR '':'', s1, s2, CHR ''.'', u1, u2, u3, u4, u5, u6, CHR ''Z''])"
    by (simp add: isoformat_def format_time_def Y(1) M(1) D(1) H(1) I(1) S(1) U(1))
  note dg = Y(2-5) M(2,3) D(2,3) H(2,3) I(2,3) S(2,3) U(2-7)
  show "matches (if microsecond t = 0 then ''dddd-dd-ddTdd:dd:ddZ''
                  else ''dddd-dd-ddTdd:dd:dd.ddddddZ'') (isoformat t @ ''Z'')"
  proof (cases "microsecond t = 0")
    case True
    then show ?thesis unfolding iso using dg by simp
  next
    case False
    then show ?thesis unfolding iso using dg by simp
  qed
  show "concat (map json_escape_char (isoformat t @ ''Z'')) = isoformat t @ ''Z''"
  proof (cases "microsecond t = 0")
    case True
    then show ?thesis unfolding iso using dg by (simp add: json_escape_digit json_escape_punct)
  next
    case False
    then show ?thesis unfolding iso using dg by (simp add: json_escape_digit json_escape_punct)
  qed
  show "\<forall>c \<in> set (isoformat t @ ''Z''). is_digit c \<or> c \<in> set ''-T:.Z''"
  proof (cases "microsecond t = 0")
    case True
    then show ?thesis unfolding iso using dg by simp
  next
    case False
    then show ?thesis unfolding iso using dg by simp
  qed
  have "parse_notice_time (isoformat t @ ''Z'') =
      Some \<lparr>year = year t, month = month t, day = day t, hour = hour t, minute = minute t,
            second = second t, microsecond = microsecond t\<rparr>"
  proof (cases "microsecond t = 0")
    case True
    then show ?thesis
      unfolding iso parse_notice_time_def using dg Y(6) M(4) D(4) H(4) I(4) S(4)
      by simp
  next
    case False
    then show ?thesis
      unfolding iso parse_notice_time_def using dg Y(6) M(4) D(4) H(4) I(4) S(4) U(8)
      by simp
  qed
  then show "parse_notice_time (isoformat t @ ''Z'') = Some t" by simp
qed

section \<open>The handler's two branches\<close>

lemma send_response_fields:
  "wfile (send_response self env code) = wfile self"
  "console (send_response self env code) = console self"
  "server (send_response self env code) = server self"
  "path (send_response self env code) = path self"
  "connection (send_response self env code) = connection self"
  "warnings (send_response self env code) = warnings self"
  "headers_buffer (send_response self env code) =
     headers_buffer self @
       [StatusLine code (case responses_table code of Some m \<Rightarrow> m | None \<Rightarrow> []),
        HeaderLine ''Server'' (version_string env), HeaderLine ''Date'' (date_time_string env)]"
  by (simp_all add: send_response_def log_request_def log_message_def send_response_only_def
      send_header_def Let_def)

text \<open>What the override of lines 31 to 33 suppresses: the inherited method would add a line
  to standard error on every \<^verbatim>\<open>send_response\<close>.\<close>

lemma inherited_log_message_writes:
  "console (BaseHTTPRequestHandler_log_message self format args) \<noteq> console self"
  by (simp add: BaseHTTPRequestHandler_log_message_def)

lemma parse_request_path_simps:
  "parse_request_path ''/latest/meta-data/rebalance-recommendation''
     = ''/latest/meta-data/rebalance-recommendation''"
  "parse_request_path (''/latest/meta-data/rebalance-recommendation'' @ ''?'' @ q)
     = ''/latest/meta-data/rebalance-recommendation'' @ ''?'' @ q"
  "parse_request_path ''//latest/meta-data/rebalance-recommendation''
     = ''/latest/meta-data/rebalance-recommendation''"
  "parse_request_path ''/nonexistent'' = ''/nonexistent''"
  "parse_request_path ''/'' = ''/''"
  by (simp_all add: parse_request_path_def)

lemma new_handler_fields [simp]:
  "path (new_handler srv target err) = parse_request_path target"
  "wfile (new_handler srv target err) = []"
  "headers_buffer (new_handler srv target err) = []"
  "console (new_handler srv target err) = err"
  "server (new_handler srv target err) = srv"
  "connection (new_handler srv target err) = None"
  "warnings (new_handler srv target err) = []"
  by (simp_all add: new_handler_def)

lemma new_handler_under_fields [simp]:
  "path (new_handler_under c srv target err) = parse_request_path target"
  "wfile (new_handler_under c srv target err) = []"
  "headers_buffer (new_handler_under c srv target err) = []"
  "console (new_handler_under c srv target err) = err"
  "server (new_handler_under c srv target err) = srv"
  "connection (new_handler_under c srv target err) = writes_accepted c"
  "warnings (new_handler_under c srv target err) = utcnow_warning c"
  by (simp_all add: new_handler_under_def)

lemma new_handler_under_ordinary:
  "new_handler_under ordinary srv target err = new_handler srv target err"
  by (simp add: new_handler_under_def ordinary_def new_handler_def)

lemma end_headers_open:
  assumes "connection self = None"
  shows "end_headers self =
     (None, self\<lparr>wfile := wfile self @ headers_buffer self @ [EndOfHeaders], headers_buffer := []\<rparr>)"
  using assms by (simp add: end_headers_def socket_write_def Let_def)

lemma do_GET_other_path:
  assumes "path self \<noteq> rebalance_path" and "connection self = None"
  shows "do_GET self env =
           Inr (self\<lparr>wfile := wfile self @ headers_buffer self @
                   [StatusLine 404 ''Not Found'', HeaderLine ''Server'' (version_string env),
                    HeaderLine ''Date'' (date_time_string env), EndOfHeaders],
                  headers_buffer := []\<rparr>)"
  using assms
  by (simp add: do_GET_def do_GET_run_def rebalance_path_def end_headers_open
      send_response_fields send_response_def log_request_def log_message_def
      send_response_only_def send_header_def responses_table_def Let_def)

lemma json_dumps_notice:
  assumes "concat (map json_escape_char s) = s"
  shows \<open>json_dumps [(''noticeTime'', s)] = ''{"noticeTime": "'' @ s @ ''"}''\<close>
  using assms
  by (simp add: json_dumps_def py_encode_basestring_ascii_def json_escape_char_def)

lemma do_GET_rebalance:
  assumes "datetime_add (utcnow env) (timedelta_new 0 0 0 2 0) = Inr d"
    and "parse_request_path target = rebalance_path"
  shows "do_GET (new_handler srv target err) env =
     Inr ((new_handler srv target err)
            \<lparr>wfile := [StatusLine 200 ''OK'', HeaderLine ''Server'' (version_string env),
                       HeaderLine ''Date'' (date_time_string env),
                       HeaderLine ''Content-type'' ''application/json'', EndOfHeaders,
                       Body (json_dumps [(''noticeTime'', isoformat d @ ''Z'')])]\<rparr>)"
  using assms
  by (simp add: do_GET_def do_GET_run_def rebalance_path_def new_handler_def send_response_def
      log_request_def log_message_def send_response_only_def send_header_def end_headers_def
      socket_write_def wfile_write_def responses_table_def Let_def)

lemma do_GET_rebalance_overflow:
  assumes "valid_datetime (utcnow env)" "\<not> before_overflow (utcnow env)"
    and "parse_request_path target = rebalance_path"
  shows "do_GET (new_handler srv target err) env = Inl OverflowError"
  using datetime_add_overflow[OF assms(1,2)] assms(3)
  by (simp add: do_GET_def do_GET_run_def rebalance_path_def)

lemma header_content_type:
  "header_value ''Content-Type''
     [StatusLine 200 ''OK'', HeaderLine ''Server'' v, HeaderLine ''Date'' dt,
      HeaderLine ''Content-type'' ''application/json'', EndOfHeaders, Body b]
   = Some ''application/json''"
  by (simp add: ascii_lower_def)

text \<open>What a handler adds to the console is the interpreter's warning, and nothing else.\<close>

lemma do_GET_run_console:
  "console (snd (do_GET_run self env)) =
     console self @ (if path self = ''/latest/meta-data/rebalance-recommendation''
                     then warnings self else [])"
  by (simp add: do_GET_run_def end_headers_def socket_write_def wfile_write_def
      send_response_fields send_header_def Let_def
      split: sum.splits option.splits nat.splits prod.splits)

lemma do_GET_run_server: "server (snd (do_GET_run self env)) = server self"
  by (simp add: do_GET_run_def end_headers_def socket_write_def wfile_write_def
      send_response_fields send_header_def Let_def
      split: sum.splits option.splits nat.splits prod.splits)


lemma accepts_simps [simp]:
  "accepts n None" "accepts n (Some k) = (n \<le> k)"
  by (simp_all add: accepts_def)

text \<open>When the handler returns: unless the addition overflows or the client has gone.\<close>

lemma do_GET_run_returns_other:
  assumes "path self \<noteq> ''/latest/meta-data/rebalance-recommendation''"
  shows "(fst (do_GET_run self env) = None) = accepts 1 (connection self)"
  using assms
  by (simp add: do_GET_run_def end_headers_def socket_write_def send_response_fields Let_def
      split: option.splits nat.splits)

lemma do_GET_run_returns_rebalance:
  assumes "path self = ''/latest/meta-data/rebalance-recommendation''"
    and "valid_datetime (utcnow env)"
  shows "(fst (do_GET_run self env) = None) =
           (before_overflow (utcnow env) \<and> accepts 2 (connection self))"
proof (cases "before_overflow (utcnow env)")
  case False
  with assms(1) datetime_add_overflow[OF assms(2) False] show ?thesis
    by (simp add: do_GET_run_def)
next
  case b: True
  from datetime_add_ok[OF assms(2) b] obtain d where
    "datetime_add (utcnow env) (timedelta_new 0 0 0 2 0) = Inr d" by blast
  with assms(1) b show ?thesis
    by (simp add: do_GET_run_def end_headers_def socket_write_def wfile_write_def
        send_response_fields send_header_def Let_def
        split: option.splits nat.splits)
qed

lemma example_valid: "valid_datetime example_now"
  by (simp add: example_now_def valid_datetime_def MINYEAR_def MAXYEAR_def days_in_month_def
      DAYS_IN_MONTH_def)

lemma example_before_overflow: "before_overflow example_now"
  by (simp add: example_now_def before_overflow_def instant_def toordinal_def ymd2ord_def
      days_before_year_def days_before_month_def is_leap_def DAYS_BEFORE_MONTH_def)

lemma example_add:
  "datetime_add example_now (timedelta_new 0 0 0 2 0) =
     Inr \<lparr>year = 2024, month = 1, day = 1, hour = 0, minute = 2, second = 0, microsecond = 0\<rparr>"
  by (simp add: example_now_def datetime_add_def timedelta_new_def timedelta_add_def Let_def
      toordinal_def ymd2ord_def days_before_year_def days_before_month_def is_leap_def
      DAYS_BEFORE_MONTH_def DAYS_IN_MONTH_def MAXORDINAL_def ord2ymd_def DI_consts)

lemma example_isoformat:
  "isoformat \<lparr>year = 2024, month = 1, day = 1, hour = 0, minute = 2, second = 0, microsecond = 0\<rparr>
     @ ''Z'' = ''2024-01-01T00:02:00Z''"
  by (simp add: isoformat_def format_time_def fmt_0d_def str_nat.simps digit_char_def Let_def)

lemma rebalance_response:
  assumes v: "valid_datetime (utcnow env)" and b: "before_overflow (utcnow env)"
    and t: "parse_request_path target = rebalance_path"
  obtains d where
    "valid_datetime d" "instant d = instant (utcnow env) + 120000000"
    "microsecond d = microsecond (utcnow env)"
    "do_GET (new_handler srv target err) env =
       Inr ((new_handler srv target err)
              \<lparr>wfile := [StatusLine 200 ''OK'', HeaderLine ''Server'' (version_string env),
                         HeaderLine ''Date'' (date_time_string env),
                         HeaderLine ''Content-type'' ''application/json'', EndOfHeaders,
                         Body (json_dumps [(''noticeTime'', isoformat d @ ''Z'')])]\<rparr>)"
proof -
  from datetime_add_ok[OF v b] obtain d where
    d: "datetime_add (utcnow env) (timedelta_new 0 0 0 2 0) = Inr d" "valid_datetime d"
       "instant d = instant (utcnow env) + 120000000" "microsecond d = microsecond (utcnow env)"
    by blast
  show ?thesis using that[OF d(2,3,4) do_GET_rebalance[OF d(1) t]] .
qed

lemma target_answer:
  assumes "valid_datetime (utcnow env)" and "before_overflow (utcnow env)"
    and t: "parse_request_path target = ''/latest/meta-data/rebalance-recommendation''"
  obtains h d s where
    "do_GET (new_handler srv target err) env = Inr h"
    "wfile h = [StatusLine 200 ''OK'', HeaderLine ''Server'' (version_string env),
                HeaderLine ''Date'' (date_time_string env),
                HeaderLine ''Content-type'' ''application/json'', EndOfHeaders,
                Body (json_dumps [(''noticeTime'', s)])]"
    \<open>json_dumps [(''noticeTime'', s)] = ''{"noticeTime": "'' @ s @ ''"}''\<close>
    "s = isoformat d @ ''Z''" "valid_datetime d"
    "instant d = instant (utcnow env) + 120000000"
    "microsecond d = microsecond (utcnow env)"
    "server h = srv" "console h = err"
proof -
  have t': "parse_request_path target = rebalance_path" using t by (simp add: rebalance_path_def)
  from assms(1,2) t' obtain d where d: "valid_datetime d"
    "instant d = instant (utcnow env) + 120000000" "microsecond d = microsecond (utcnow env)"
    and g: "do_GET (new_handler srv target err) env =
       Inr ((new_handler srv target err)
              \<lparr>wfile := [StatusLine 200 ''OK'', HeaderLine ''Server'' (version_string env),
                         HeaderLine ''Date'' (date_time_string env),
                         HeaderLine ''Content-type'' ''application/json'', EndOfHeaders,
                         Body (json_dumps [(''noticeTime'', isoformat d @ ''Z'')])]\<rparr>)"
    by (rule rebalance_response)
  define s where "s = isoformat d @ ''Z''"
  define h where "h = (new_handler srv target err)
              \<lparr>wfile := [StatusLine 200 ''OK'', HeaderLine ''Server'' (version_string env),
                         HeaderLine ''Date'' (date_time_string env),
                         HeaderLine ''Content-type'' ''application/json'', EndOfHeaders,
                         Body (json_dumps [(''noticeTime'', s)])]\<rparr>"
  have 1: "do_GET (new_handler srv target err) env = Inr h"
    using g by (simp add: h_def s_def)
  have 2: "wfile h = [StatusLine 200 ''OK'', HeaderLine ''Server'' (version_string env),
                         HeaderLine ''Date'' (date_time_string env),
                         HeaderLine ''Content-type'' ''application/json'', EndOfHeaders,
                         Body (json_dumps [(''noticeTime'', s)])]"
    by (simp add: h_def)
  have 3: \<open>json_dumps [(''noticeTime'', s)] = ''{"noticeTime": "'' @ s @ ''"}''\<close>
    unfolding s_def using isoformat_Z(3)[OF d(1)] by (rule json_dumps_notice)
  have 4: "server h = srv" "console h = err" by (simp_all add: h_def)
  show ?thesis using that[OF 1 2 3 s_def d 4] .
qed

lemma rebalance_answer:
  assumes "valid_datetime (utcnow env)" and "before_overflow (utcnow env)"
  obtains h d s where
    "do_GET (new_handler srv ''/latest/meta-data/rebalance-recommendation'' err) env = Inr h"
    "wfile h = [StatusLine 200 ''OK'', HeaderLine ''Server'' (version_string env),
                HeaderLine ''Date'' (date_time_string env),
                HeaderLine ''Content-type'' ''application/json'', EndOfHeaders,
                Body (json_dumps [(''noticeTime'', s)])]"
    \<open>json_dumps [(''noticeTime'', s)] = ''{"noticeTime": "'' @ s @ ''"}''\<close>
    "s = isoformat d @ ''Z''" "valid_datetime d"
    "instant d = instant (utcnow env) + 120000000"
    "microsecond d = microsecond (utcnow env)"
    "server h = srv" "console h = err"
  using target_answer[OF assms parse_request_path_simps(1), of srv err] by blast

lemma last_minutes_valid:
  "valid_datetime \<lparr>year = 9999, month = 12, day = 31, hour = 23, minute = 58, second = 0,
                   microsecond = 0\<rparr>"
  by (simp add: valid_datetime_def MINYEAR_def MAXYEAR_def days_in_month_def DAYS_IN_MONTH_def)

lemma last_minutes_not_before_overflow:
  "\<not> before_overflow \<lparr>year = 9999, month = 12, day = 31, hour = 23, minute = 58, second = 0,
                   microsecond = 0\<rparr>"
  by (simp add: before_overflow_def)

lemma example_env_fields [simp]:
  "utcnow (example_env t) = t"
  "version_string (example_env t) = ''BaseHTTP/0.6 Python/3.11.4''"
  "date_time_string (example_env t) = ''Mon, 01 Jan 2024 00:00:00 GMT''"
  by (simp_all add: example_env_def)

lemma last_minutes_overflow:
  "do_GET (new_handler srv ''/latest/meta-data/rebalance-recommendation'' err)
     (example_env \<lparr>year = 9999, month = 12, day = 31, hour = 23, minute = 58, second = 0,
                   microsecond = 0\<rparr>) = Inl OverflowError"
  using do_GET_rebalance_overflow[of "example_env \<lparr>year = 9999, month = 12, day = 31, hour = 23,
      minute = 58, second = 0, microsecond = 0\<rparr>" "''/latest/meta-data/rebalance-recommendation''"]
    last_minutes_valid last_minutes_not_before_overflow
  by (simp add: parse_request_path_simps rebalance_path_def)


section \<open>The server loop\<close>

lemma do_GET_frame:
  assumes "do_GET self env = Inr h"
  shows "server h = server self"
    "console h = console self @ (if path self = ''/latest/meta-data/rebalance-recommendation''
                                 then warnings self else [])"
proof -
  from assms have "h = snd (do_GET_run self env)"
    by (auto simp: do_GET_def split: prod.splits option.splits)
  then show "server h = server self"
    "console h = console self @ (if path self = ''/latest/meta-data/rebalance-recommendation''
                                 then warnings self else [])"
    by (simp_all only: do_GET_run_server do_GET_run_console)
qed

lemma handle_request_noblock_frame:
  "fst (handle_request_noblock srv p c target env) = srv"
  "stdout (snd (handle_request_noblock srv p c target env)) = stdout p"
  "status (snd (handle_request_noblock srv p c target env)) = status p"
  "bind_attempts (snd (handle_request_noblock srv p c target env)) = bind_attempts p"
  "listener (snd (handle_request_noblock srv p c target env)) = listener p"
  "length (responses (snd (handle_request_noblock srv p c target env))) = Suc (length (responses p))"
  using do_GET_run_server[of "new_handler_under c srv target (stderr p)" env]
  by (auto simp: handle_request_noblock_def Let_def split: prod.splits option.splits)

lemma handle_request_noblock_quiet:
  assumes "handled_quietly c target env"
  shows "stderr (snd (handle_request_noblock srv p c target env)) = stderr p"
proof -
  define h where "h = new_handler_under c srv target (stderr p)"
  have r: "fst (do_GET_run h env) = None"
  proof (cases "path h = ''/latest/meta-data/rebalance-recommendation''")
    case True
    with assms have "valid_datetime (utcnow env)" "before_overflow (utcnow env)"
      "accepts 2 (connection h)"
      by (simp_all add: handled_quietly_def h_def)
    with do_GET_run_returns_rebalance[OF True] show ?thesis by simp
  next
    case False
    with assms have "accepts 1 (connection h)" by (simp add: handled_quietly_def h_def)
    with do_GET_run_returns_other[OF False] show ?thesis by simp
  qed
  have w: "path h = ''/latest/meta-data/rebalance-recommendation'' \<Longrightarrow> warnings h = []"
    using assms by (simp add: handled_quietly_def h_def)
  have "console (snd (do_GET_run h env)) = stderr p"
    using w by (simp add: do_GET_run_console) (simp add: h_def)
  with r show ?thesis
    by (cases "do_GET_run h env") (simp add: handle_request_noblock_def h_def[symmetric])
qed

text \<open>One turn of the loop.\<close>

lemma serve_loop_Cons:
  assumes "\<not> shutdown_request srv"
  shows "serve_loop srv p (ev # evs) =
     (case request_of ev of
        None \<Rightarrow> (Raised KeyboardInterrupt, srv, p)
      | Some (c, target, env) \<Rightarrow>
          serve_loop (fst (handle_request_noblock srv p c target env))
            (snd (handle_request_noblock srv p c target env)) evs)"
  using assms
  by (subst serve_loop.simps) (simp add: request_of_def split: event.splits prod.splits)

lemma undisturbed_request:
  "undisturbed ev =
     (case request_of ev of None \<Rightarrow> True | Some (c, target, env) \<Rightarrow> handled_quietly c target env)"
  by (simp add: undisturbed_def request_of_def split: event.splits)

lemma request_of_None: "(request_of ev = None) = (ev = Interrupt)"
  by (simp add: request_of_def split: event.splits)

lemma serve_loop_requests:
  assumes "\<not> shutdown_request srv" "Interrupt \<notin> set reqs"
  shows "\<exists>p'. serve_loop srv p reqs = (Waiting, srv, p') \<and>
              serve_loop srv p (reqs @ Interrupt # rest) = (Raised KeyboardInterrupt, srv, p') \<and>
              stdout p' = stdout p \<and> status p' = status p \<and>
              bind_attempts p' = bind_attempts p \<and> listener p' = listener p \<and>
              length (responses p') = length (responses p) + length reqs"
  using assms
proof (induction reqs arbitrary: p)
  case Nil
  then show ?case by (simp add: serve_loop_Cons request_of_def) (simp add: serve_loop.simps)
next
  case (Cons ev reqs)
  then have "request_of ev \<noteq> None" by (auto simp: request_of_None)
  then obtain c target env where r: "request_of ev = Some (c, target, env)" by auto
  define p1 where "p1 = snd (handle_request_noblock srv p c target env)"
  note f = handle_request_noblock_frame[of srv p c target env, folded p1_def]
  from Cons.IH[of p1] Cons.prems obtain p' where
    "serve_loop srv p1 reqs = (Waiting, srv, p')"
    "serve_loop srv p1 (reqs @ Interrupt # rest) = (Raised KeyboardInterrupt, srv, p')"
    "stdout p' = stdout p1" "status p' = status p1" "bind_attempts p' = bind_attempts p1"
    "listener p' = listener p1"
    "length (responses p') = length (responses p1) + length reqs"
    by auto
  then show ?case
    using Cons.prems(1) r f
    by (simp add: serve_loop_Cons p1_def[symmetric])
qed

lemma serve_loop_quiet:
  assumes "\<not> shutdown_request srv" and "\<forall>ev \<in> set evs. undisturbed ev"
  shows "stdout (snd (snd (serve_loop srv p evs))) = stdout p \<and>
         stderr (snd (snd (serve_loop srv p evs))) = stderr p \<and>
         fst (serve_loop srv p evs) \<noteq> Raised OverflowError \<and>
         fst (serve_loop srv p evs) \<noteq> Raised OSError"
  using assms(2)
proof (induction evs arbitrary: p)
  case Nil
  then show ?case by (simp add: serve_loop.simps)
next
  case (Cons ev evs)
  show ?case
  proof (cases "request_of ev")
    case None
    then show ?thesis using assms(1) by (simp add: serve_loop_Cons)
  next
    case (Some r)
    then obtain c target env where r: "request_of ev = Some (c, target, env)"
      by (cases r) auto
    define p1 where "p1 = snd (handle_request_noblock srv p c target env)"
    note f = handle_request_noblock_frame[of srv p c target env, folded p1_def]
    have q: "handled_quietly c target env"
      using Cons.prems r by (simp add: undisturbed_request)
    have e: "stderr p1 = stderr p" unfolding p1_def using q by (rule handle_request_noblock_quiet)
    have "\<forall>ev \<in> set evs. undisturbed ev" using Cons.prems by simp
    from Cons.IH[OF this, of p1] e f(2) show ?thesis
      using assms(1) r f(1) by (simp add: serve_loop_Cons p1_def[symmetric])
  qed
qed


lemma main_bind_failure:
  assumes "os \<noteq> Bound"
  shows "main os evs =
           \<lparr>stdout = [], stderr = [traceback OSError], bind_attempts = 1, responses = [],
            status = Exited 1, listener = None\<rparr>"
  using assms by (cases os) (simp_all add: main_def HTTPServer_new_def uncaught_def Let_def)

text \<open>A run whose bind succeeds, from the state in which the loop is entered.\<close>

lemma main_Bound:
  "main Bound evs =
     (case serve_loop example_server
             \<lparr>stdout = startup_lines, stderr = [], bind_attempts = 1, responses = [],
              status = Serving, listener = None\<rparr> evs of
        (Waiting, srv, p) \<Rightarrow> p\<lparr>listener := Some srv\<rparr>
      | (Returned, srv, p) \<Rightarrow>
          p\<lparr>listener := Some (srv\<lparr>shutdown_request := False, is_shut_down := True\<rparr>),
            status := Exited 0\<rparr>
      | (Raised KeyboardInterrupt, srv, p) \<Rightarrow>
          p\<lparr>listener := Some (srv\<lparr>shutdown_request := True, is_shut_down := True\<rparr>),
            status := Exited 0\<rparr>
      | (Raised e, srv, p) \<Rightarrow>
          uncaught e (p\<lparr>listener := Some (srv\<lparr>shutdown_request := False, is_shut_down := True\<rparr>)\<rparr>))"
proof -
  have s: "\<lparr>server_address = (''localhost'', 8080), shutdown_request = False,
            is_shut_down = False\<rparr> = example_server"
    "example_server\<lparr>is_shut_down := False\<rparr> = example_server"
    by (simp_all add: example_server_def)
  show ?thesis
    by (simp add: main_def HTTPServer_new_def Let_def print_def startup_lines_def s
        serve_forever_def shutdown_def
        split: prod.splits outcome.splits py_error.splits)
qed

lemma example_server_serving [simp]: "\<not> shutdown_request example_server"
  by (simp add: example_server_def)

lemma main_quiet:
  assumes "\<forall>ev \<in> set evs. undisturbed ev"
  shows "stdout (main Bound evs) = startup_lines \<and> stderr (main Bound evs) = []"
proof -
  define p0 where "p0 = \<lparr>stdout = startup_lines, stderr = [], bind_attempts = 1, responses = [],
              status = Serving, listener = None\<rparr>"
  obtain r srv' p' where l: "serve_loop example_server p0 evs = (r, srv', p')"
    by (cases "serve_loop example_server p0 evs") auto
  from serve_loop_quiet[OF example_server_serving assms, of p0] l
  have q: "stdout p' = startup_lines" "stderr p' = []" "r \<noteq> Raised OverflowError"
    "r \<noteq> Raised OSError"
    by (simp_all add: p0_def)
  note m = main_Bound[of evs, folded p0_def, unfolded l]
  show ?thesis
  proof (cases r)
    case (Raised e)
    with q have "e = KeyboardInterrupt" by (cases e) auto
    with Raised q show ?thesis unfolding m by simp
  next
    case Returned
    with q show ?thesis unfolding m by simp
  next
    case Waiting
    with q show ?thesis unfolding m by simp
  qed
qed

section \<open>The example inputs\<close>

lemma example_response:
  \<open>do_GET (new_handler srv ''/latest/meta-data/rebalance-recommendation'' err) (example_env example_now) =
     Inr ((new_handler srv ''/latest/meta-data/rebalance-recommendation'' err)
            \<lparr>wfile := [StatusLine 200 ''OK'',
                       HeaderLine ''Server'' (version_string (example_env example_now)),
                       HeaderLine ''Date'' (date_time_string (example_env example_now)),
                       HeaderLine ''Content-type'' ''application/json'', EndOfHeaders,
                       Body ''{"noticeTime": "2024-01-01T00:02:00Z"}'']\<rparr>)\<close>
proof -
  have a: "datetime_add (utcnow (example_env example_now)) (timedelta_new 0 0 0 2 0) =
     Inr \<lparr>year = 2024, month = 1, day = 1, hour = 0, minute = 2, second = 0, microsecond = 0\<rparr>"
    using example_add by simp
  have j: \<open>json_dumps [(''noticeTime'', ''2024-01-01T00:02:00Z'')] = ''{"noticeTime": "2024-01-01T00:02:00Z"}''\<close>
    by (simp add: json_dumps_def py_encode_basestring_ascii_def json_escape_char_def)
  have t: "parse_request_path ''/latest/meta-data/rebalance-recommendation'' = rebalance_path"
    by (simp add: parse_request_path_simps rebalance_path_def)
  show ?thesis
    using do_GET_rebalance[OF a t, of srv err]
    unfolding example_isoformat j .
qed

lemma example_us_valid: "valid_datetime (example_now\<lparr>microsecond := 1234\<rparr>)"
  by (simp add: example_now_def valid_datetime_def MINYEAR_def MAXYEAR_def days_in_month_def
      DAYS_IN_MONTH_def)

lemma example_us_before_overflow: "before_overflow (example_now\<lparr>microsecond := 1234\<rparr>)"
  by (simp add: example_now_def before_overflow_def instant_def toordinal_def ymd2ord_def
      days_before_year_def days_before_month_def is_leap_def DAYS_BEFORE_MONTH_def)

lemma example_later_valid: "valid_datetime (example_now\<lparr>second := 1\<rparr>)"
  by (simp add: example_now_def valid_datetime_def MINYEAR_def MAXYEAR_def days_in_month_def
      DAYS_IN_MONTH_def)

lemma example_later_before_overflow: "before_overflow (example_now\<lparr>second := 1\<rparr>)"
  by (simp add: example_now_def before_overflow_def instant_def toordinal_def ymd2ord_def
      days_before_year_def days_before_month_def is_leap_def DAYS_BEFORE_MONTH_def)

lemma example_later_le: "instant example_now \<le> instant (example_now\<lparr>second := 1\<rparr>)"
  by (simp add: example_now_def instant_def toordinal_def)

text \<open>The run of the handler on the example request, under any conditions with an empty
  warning or not, as long as the socket accepts both writes.\<close>

lemma example_run:
  assumes "accepts 2 (writes_accepted c)"
  shows \<open>fst (do_GET_run (new_handler_under c srv ''/latest/meta-data/rebalance-recommendation'' err)
            (example_env example_now)) = None \<and>
         console (snd (do_GET_run (new_handler_under c srv ''/latest/meta-data/rebalance-recommendation'' err)
            (example_env example_now))) = err @ utcnow_warning c \<and>
         server (snd (do_GET_run (new_handler_under c srv ''/latest/meta-data/rebalance-recommendation'' err)
            (example_env example_now))) = srv \<and>
         wfile (snd (do_GET_run (new_handler_under c srv ''/latest/meta-data/rebalance-recommendation'' err)
            (example_env example_now))) =
           [StatusLine 200 ''OK'', HeaderLine ''Server'' ''BaseHTTP/0.6 Python/3.11.4'',
            HeaderLine ''Date'' ''Mon, 01 Jan 2024 00:00:00 GMT'',
            HeaderLine ''Content-type'' ''application/json'', EndOfHeaders,
            Body ''{"noticeTime": "2024-01-01T00:02:00Z"}'']\<close>
proof -
  have j: \<open>json_dumps [(''noticeTime'', ''2024-01-01T00:02:00Z'')] = ''{"noticeTime": "2024-01-01T00:02:00Z"}''\<close>
    by (simp add: json_dumps_def py_encode_basestring_ascii_def json_escape_char_def)
  have i: "isoformat \<lparr>year = 2024, month = 1, day = 1, hour = 0, minute = 2, second = 0,
      microsecond = 0\<rparr> @ ''Z'' = ''2024-01-01T00:02:00Z''"
    by (rule example_isoformat)
  have b: \<open>[(''noticeTime'', isoformat \<lparr>year = 2024, month = 1, day = 1, hour = 0, minute = 2,
      second = 0, microsecond = 0\<rparr> @ ''Z'')] = [(''noticeTime'', ''2024-01-01T00:02:00Z'')]\<close>
    using i by simp
  show ?thesis
    using assms
    unfolding do_GET_run_def Let_def
    by (simp only: new_handler_under_fields parse_request_path_simps if_True example_env_fields
        example_add sum.case b j)
       (auto simp: end_headers_def socket_write_def wfile_write_def send_response_fields
        send_header_def responses_table_def Let_def split: option.splits nat.splits)
qed

lemma handle_request_noblock_example:
  assumes "accepts 2 (writes_accepted c)"
  shows \<open>handle_request_noblock srv p c ''/latest/meta-data/rebalance-recommendation'' (example_env example_now) =
     (srv, p\<lparr>stderr := stderr p @ utcnow_warning c,
              responses := responses p @
        [[StatusLine 200 ''OK'', HeaderLine ''Server'' ''BaseHTTP/0.6 Python/3.11.4'',
          HeaderLine ''Date'' ''Mon, 01 Jan 2024 00:00:00 GMT'',
          HeaderLine ''Content-type'' ''application/json'', EndOfHeaders,
          Body ''{"noticeTime": "2024-01-01T00:02:00Z"}'']]\<rparr>)\<close>
  using example_run[OF assms, of srv "stderr p"]
  by (cases "do_GET_run (new_handler_under c srv ''/latest/meta-data/rebalance-recommendation'' (stderr p))
              (example_env example_now)")
     (simp add: handle_request_noblock_def)

lemma main_two_example_requests:
  \<open>map body_of (responses (main Bound
      [Request ''/latest/meta-data/rebalance-recommendation'' (example_env example_now),
       Request ''/latest/meta-data/rebalance-recommendation'' (example_env example_now)])) =
    [''{"noticeTime": "2024-01-01T00:02:00Z"}'', ''{"noticeTime": "2024-01-01T00:02:00Z"}'']\<close>
proof -
  have a: "accepts 2 (writes_accepted ordinary)" by (simp add: ordinary_def)
  show ?thesis
    by (simp add: main_Bound serve_loop_Cons request_of_def handle_request_noblock_example[OF a])
       (simp add: serve_loop.simps)
qed

lemma parse_request_path_examples:
  "parse_request_path ''/latest/meta-data/rebalance-recommendation/''
     = ''/latest/meta-data/rebalance-recommendation/''"
  "parse_request_path ''/latest/meta-data/Rebalance-Recommendation''
     = ''/latest/meta-data/Rebalance-Recommendation''"
  by (simp_all add: parse_request_path_def)

lemma double_slash_response:
  \<open>do_GET (new_handler srv ''//latest/meta-data/rebalance-recommendation'' err) (example_env example_now) =
     Inr ((new_handler srv ''//latest/meta-data/rebalance-recommendation'' err)
            \<lparr>wfile := [StatusLine 200 ''OK'',
                       HeaderLine ''Server'' (version_string (example_env example_now)),
                       HeaderLine ''Date'' (date_time_string (example_env example_now)),
                       HeaderLine ''Content-type'' ''application/json'', EndOfHeaders,
                       Body ''{"noticeTime": "2024-01-01T00:02:00Z"}'']\<rparr>)\<close>
proof -
  have a: "datetime_add (utcnow (example_env example_now)) (timedelta_new 0 0 0 2 0) =
     Inr \<lparr>year = 2024, month = 1, day = 1, hour = 0, minute = 2, second = 0, microsecond = 0\<rparr>"
    using example_add by simp
  have j: \<open>json_dumps [(''noticeTime'', ''2024-01-01T00:02:00Z'')] = ''{"noticeTime": "2024-01-01T00:02:00Z"}''\<close>
    by (simp add: json_dumps_def py_encode_basestring_ascii_def json_escape_char_def)
  have t: "parse_request_path ''//latest/meta-data/rebalance-recommendation'' = rebalance_path"
    by (simp add: parse_request_path_simps rebalance_path_def)
  show ?thesis
    using do_GET_rebalance[OF a t, of srv err]
    unfolding example_isoformat j .
qed

lemma example_boundary_valid: "valid_datetime (example_now\<lparr>microsecond := 999999\<rparr>)"
  by (simp add: example_now_def valid_datetime_def MINYEAR_def MAXYEAR_def days_in_month_def
      DAYS_IN_MONTH_def)

lemma example_boundary_before_overflow: "before_overflow (example_now\<lparr>microsecond := 999999\<rparr>)"
  by (simp add: example_now_def before_overflow_def instant_def toordinal_def ymd2ord_def
      days_before_year_def days_before_month_def is_leap_def DAYS_BEFORE_MONTH_def)

lemma status_and_body:
  assumes "utcnow env1 = utcnow env2"
  shows "map_sum id (\<lambda>h. (status_code (wfile h), body_of (wfile h)))
           (do_GET (new_handler srv1 target err1) env1) =
         map_sum id (\<lambda>h. (status_code (wfile h), body_of (wfile h)))
           (do_GET (new_handler srv2 target err2) env2)"
  using assms
  by (simp add: do_GET_def do_GET_run_def new_handler_def send_response_def log_request_def
      log_message_def send_response_only_def send_header_def end_headers_def socket_write_def
      wfile_write_def status_code_def Let_def
      split: sum.splits)

lemma whole_response:
  "map_sum id wfile (do_GET (new_handler srv1 target err1) env) =
   map_sum id wfile (do_GET (new_handler srv2 target err2) env)"
  by (simp add: do_GET_def do_GET_run_def new_handler_def send_response_def log_request_def
      log_message_def send_response_only_def send_header_def end_headers_def socket_write_def
      wfile_write_def Let_def
      split: sum.splits)

lemma handle_request_noblock_stderr:
  "stderr (snd (handle_request_noblock srv p c target env)) =
     stderr p @
     (if parse_request_path target = ''/latest/meta-data/rebalance-recommendation''
      then utcnow_warning c else []) @
     (case fst (do_GET_run (new_handler_under c srv target (stderr p)) env) of
        None \<Rightarrow> []
      | Some e \<Rightarrow> [traceback e])"
proof -
  define h where "h = new_handler_under c srv target (stderr p)"
  obtain r h' where d: "do_GET_run h env = (r, h')" by (cases "do_GET_run h env") auto
  have "console h' = stderr p @
     (if parse_request_path target = ''/latest/meta-data/rebalance-recommendation''
      then utcnow_warning c else [])"
    using do_GET_run_console[of h env] d by (simp add: h_def)
  then show ?thesis
    using d by (cases r) (simp_all add: handle_request_noblock_def h_def[symmetric])
qed

lemma main_one_request:
  assumes "request_of ev = Some (c, target, env)"
  shows "stdout (main Bound [ev]) = startup_lines"
    "stderr (main Bound [ev]) =
       (if parse_request_path target = ''/latest/meta-data/rebalance-recommendation''
        then utcnow_warning c else []) @
       (case fst (do_GET_run (new_handler_under c example_server target []) env) of
          None \<Rightarrow> []
        | Some e \<Rightarrow> [traceback e])"
proof -
  define p0 where "p0 = \<lparr>stdout = startup_lines, stderr = [], bind_attempts = 1, responses = [],
              status = Serving, listener = None\<rparr>"
  define p1 where "p1 = snd (handle_request_noblock example_server p0 c target env)"
  have l: "serve_loop example_server p0 [ev] = (Waiting, example_server, p1)"
    using assms handle_request_noblock_frame(1)[of example_server p0 c target env]
    by (simp add: serve_loop_Cons p1_def) (simp add: serve_loop.simps)
  have m: "main Bound [ev] = p1\<lparr>listener := Some example_server\<rparr>"
    using main_Bound[of "[ev]", folded p0_def, unfolded l] by simp
  have e: "stderr p0 = []" "stdout p0 = startup_lines" by (simp_all add: p0_def)
  show "stdout (main Bound [ev]) = startup_lines"
    unfolding m using handle_request_noblock_frame(2)[of example_server p0 c target env] e
    by (simp add: p1_def)
  show "stderr (main Bound [ev]) =
       (if parse_request_path target = ''/latest/meta-data/rebalance-recommendation''
        then utcnow_warning c else []) @
       (case fst (do_GET_run (new_handler_under c example_server target []) env) of
          None \<Rightarrow> []
        | Some e \<Rightarrow> [traceback e])"
    unfolding m using handle_request_noblock_stderr[of example_server p0 c target env] e
    by (simp add: p1_def)
qed

lemma client_gone_run:
  "fst (do_GET_run (new_handler_under client_gone srv ''/latest/meta-data/rebalance-recommendation'' err)
          (example_env example_now)) = Some OSError"
proof -
  have c: "writes_accepted client_gone = Some (Suc 0)" by (simp add: client_gone_def)
  show ?thesis
    unfolding do_GET_run_def Let_def
    by (simp only: new_handler_under_fields parse_request_path_simps if_True example_env_fields
        example_add sum.case)
       (auto simp: end_headers_def socket_write_def wfile_write_def send_response_fields
        send_header_def c Let_def split: option.splits nat.splits)
qed

lemma overflow_run:
  "fst (do_GET_run (new_handler_under c srv ''/latest/meta-data/rebalance-recommendation'' err)
          (example_env \<lparr>year = 9999, month = 12, day = 31, hour = 23, minute = 58, second = 0,
                        microsecond = 0\<rparr>)) = Some OverflowError"
  using datetime_add_overflow[of "\<lparr>year = 9999, month = 12, day = 31, hour = 23, minute = 58,
      second = 0, microsecond = 0\<rparr>"] last_minutes_valid last_minutes_not_before_overflow
  by (simp add: do_GET_run_def parse_request_path_simps)

lemma example_undisturbed:
  "undisturbed (Request ''/latest/meta-data/rebalance-recommendation'' (example_env example_now))"
  "undisturbed (RequestUnder \<lparr>utcnow_warning = [], writes_accepted = Some 2\<rparr>
                  ''/latest/meta-data/rebalance-recommendation'' (example_env example_now))"
  "undisturbed (Request ''/nonexistent'' (example_env example_now))"
  "undisturbed (RequestUnder client_gone ''/nonexistent'' (example_env example_now))"
  "undisturbed Interrupt"
  using example_valid example_before_overflow
  by (simp_all add: undisturbed_def handled_quietly_def ordinary_def client_gone_def
      parse_request_path_simps)

section \<open>Claims about the recognized path\<close>

text \<open>
  Claim C1, amended. For a GET request whose path is exactly
  \<^verbatim>\<open>/latest/meta-data/rebalance-recommendation\<close>, handled at a clock reading before
  9999-12-31T23:58:00, the handler responds with status 200, a Content-Type header equal
  to \<^verbatim>\<open>application/json\<close>, and a body that is the JSON object with the one key
  \<^verbatim>\<open>noticeTime\<close>, whose value is a string (of digits and the characters \<^verbatim>\<open>-T:.Z\<close>,
  so nothing in it is escaped).
\<close>

theorem rebalance_response_200:
  assumes "valid_datetime (utcnow env)" and "before_overflow (utcnow env)"
  shows \<open>\<exists>h s. do_GET (new_handler srv ''/latest/meta-data/rebalance-recommendation'' err) env = Inr h \<and>
           status_code (wfile h) = Some 200 \<and>
           header_value ''Content-Type'' (wfile h) = Some ''application/json'' \<and>
           body_of (wfile h) = json_dumps [(''noticeTime'', s)] \<and>
           body_of (wfile h) = ''{"noticeTime": "'' @ s @ ''"}'' \<and>
           (\<forall>c \<in> set s. is_digit c \<or> c \<in> set ''-T:.Z'')\<close>
proof -
  from assms obtain h d s where
    g: "do_GET (new_handler srv ''/latest/meta-data/rebalance-recommendation'' err) env = Inr h"
    and w: "wfile h = [StatusLine 200 ''OK'', HeaderLine ''Server'' (version_string env),
                HeaderLine ''Date'' (date_time_string env),
                HeaderLine ''Content-type'' ''application/json'', EndOfHeaders,
                Body (json_dumps [(''noticeTime'', s)])]"
    and j: \<open>json_dumps [(''noticeTime'', s)] = ''{"noticeTime": "'' @ s @ ''"}''\<close>
    and s: "s = isoformat d @ ''Z''" and d: "valid_datetime d"
    by (rule rebalance_answer)
  have 2: "status_code (wfile h) = Some 200" by (simp add: w status_code_def)
  have 3: "header_value ''Content-Type'' (wfile h) = Some ''application/json''"
    unfolding w by (rule header_content_type)
  have 4: "body_of (wfile h) = json_dumps [(''noticeTime'', s)]" by (simp add: w)
  have 5: \<open>body_of (wfile h) = ''{"noticeTime": "'' @ s @ ''"}''\<close> unfolding 4 by (rule j)
  have 6: "\<forall>c \<in> set s. is_digit c \<or> c \<in> set ''-T:.Z''"
    unfolding s by (rule isoformat_Z(4)[OF d])
  show ?thesis using g 2 3 4 5 6 by blast
qed

theorem rebalance_response_200_witness:
  \<open>valid_datetime example_now \<and> before_overflow example_now \<and>
   (\<exists>h s. do_GET (new_handler example_server ''/latest/meta-data/rebalance-recommendation'' [])
             (example_env example_now) = Inr h \<and>
          status_code (wfile h) = Some 200 \<and>
          header_value ''Content-Type'' (wfile h) = Some ''application/json'' \<and>
          body_of (wfile h) = json_dumps [(''noticeTime'', s)] \<and>
          body_of (wfile h) = ''{"noticeTime": "'' @ s @ ''"}'' \<and>
          (\<forall>c \<in> set s. is_digit c \<or> c \<in> set ''-T:.Z''))\<close>
  using rebalance_response_200 [of "example_env example_now" example_server "[]"]
    example_valid example_before_overflow
  by (simp add: example_env_def)

text \<open>
  Claim C1 as stated fails in the last two minutes of the year 9999: the addition of
  line 16 raises \<^verbatim>\<open>OverflowError\<close> before anything is sent, so there is no response.
\<close>

theorem rebalance_response_counterexample:
  "valid_datetime \<lparr>year = 9999, month = 12, day = 31, hour = 23, minute = 58, second = 0,
                   microsecond = 0\<rparr> \<and>
   do_GET (new_handler example_server ''/latest/meta-data/rebalance-recommendation'' [])
     (example_env \<lparr>year = 9999, month = 12, day = 31, hour = 23, minute = 58, second = 0,
                   microsecond = 0\<rparr>) = Inl OverflowError"
  using last_minutes_valid last_minutes_overflow by simp



text \<open>
  Claim C4, amended. For a request on the recognized path at a clock reading before
  9999-12-31T23:58:00, the noticeTime string ends in \<^verbatim>\<open>Z\<close> and has the format
  \<^verbatim>\<open>YYYY-MM-DDTHH:MM:SS.ffffffZ\<close> when the microsecond field of the clock reading is not
  zero, and the format \<^verbatim>\<open>YYYY-MM-DDTHH:MM:SSZ\<close>, without a fraction, when it is zero.
\<close>

theorem notice_time_format:
  assumes "valid_datetime (utcnow env)" and "before_overflow (utcnow env)"
  shows \<open>\<exists>h s. do_GET (new_handler srv ''/latest/meta-data/rebalance-recommendation'' err) env = Inr h \<and>
           body_of (wfile h) = ''{"noticeTime": "'' @ s @ ''"}'' \<and>
           matches (if microsecond (utcnow env) = 0 then ''dddd-dd-ddTdd:dd:ddZ''
                    else ''dddd-dd-ddTdd:dd:dd.ddddddZ'') s\<close>
proof -
  from assms obtain h d s where
    g: "do_GET (new_handler srv ''/latest/meta-data/rebalance-recommendation'' err) env = Inr h"
    and w: "wfile h = [StatusLine 200 ''OK'', HeaderLine ''Server'' (version_string env),
                HeaderLine ''Date'' (date_time_string env),
                HeaderLine ''Content-type'' ''application/json'', EndOfHeaders,
                Body (json_dumps [(''noticeTime'', s)])]"
    and j: \<open>json_dumps [(''noticeTime'', s)] = ''{"noticeTime": "'' @ s @ ''"}''\<close>
    and s: "s = isoformat d @ ''Z''" and d: "valid_datetime d"
    and i: "instant d = instant (utcnow env) + 120000000"
    and u: "microsecond d = microsecond (utcnow env)"
    by (rule rebalance_answer)
  have 1: \<open>body_of (wfile h) = ''{"noticeTime": "'' @ s @ ''"}''\<close>
    unfolding w using j by simp
  have 2: "matches (if microsecond (utcnow env) = 0 then ''dddd-dd-ddTdd:dd:ddZ''
                    else ''dddd-dd-ddTdd:dd:dd.ddddddZ'') s"
    unfolding s u[symmetric] by (rule isoformat_Z(1)[OF d])
  show ?thesis using g 1 2 by blast
qed

theorem notice_time_format_witness:
  \<open>valid_datetime (example_now\<lparr>microsecond := 1234\<rparr>) \<and>
   before_overflow (example_now\<lparr>microsecond := 1234\<rparr>) \<and>
   (\<exists>h s. do_GET (new_handler example_server ''/latest/meta-data/rebalance-recommendation'' [])
             (example_env (example_now\<lparr>microsecond := 1234\<rparr>)) = Inr h \<and>
          body_of (wfile h) = ''{"noticeTime": "'' @ s @ ''"}'' \<and>
          matches ''dddd-dd-ddTdd:dd:dd.ddddddZ'' s)\<close>
  using notice_time_format
    [of "example_env (example_now\<lparr>microsecond := 1234\<rparr>)" example_server "[]"]
    example_us_valid example_us_before_overflow
  by (simp add: example_now_def)

text \<open>
  Claim C4 as stated fails at every clock reading whose microsecond field is zero:
  \<^verbatim>\<open>isoformat()\<close> then writes no fraction. At 2024-01-01T00:00:00 the noticeTime is
  \<^verbatim>\<open>2024-01-01T00:02:00Z\<close>.
\<close>

theorem notice_time_format_counterexample:
  \<open>valid_datetime example_now \<and>
   (\<exists>h. do_GET (new_handler example_server ''/latest/meta-data/rebalance-recommendation'' [])
           (example_env example_now) = Inr h \<and>
        body_of (wfile h) = ''{"noticeTime": "'' @ ''2024-01-01T00:02:00Z'' @ ''"}'') \<and>
   \<not> matches ''dddd-dd-ddTdd:dd:dd.ddddddZ'' ''2024-01-01T00:02:00Z''\<close>
proof -
  have "\<not> matches ''dddd-dd-ddTdd:dd:dd.ddddddZ'' ''2024-01-01T00:02:00Z''"
    by (simp add: is_digit_def)
  then show ?thesis
    using example_valid example_response [of example_server "[]"] by simp
qed

text \<open>
  Claim C6, amended. Handling a request leaves the server object and the console, the
  state shared between requests, as they were. For two successive requests on the recognized path at
  clock readings that do not decrease (both before 9999-12-31T23:58:00), each noticeTime
  is its own request's clock reading plus 120 seconds, so the two notice times do not
  decrease, and the two noticeTime strings differ exactly when the two clock readings
  differ.
\<close>

theorem successive_requests:
  assumes "valid_datetime (utcnow env1)" and "before_overflow (utcnow env1)"
    and "valid_datetime (utcnow env2)" and "before_overflow (utcnow env2)"
    and "instant (utcnow env1) \<le> instant (utcnow env2)"
  shows \<open>\<exists>h1 h2 s1 s2 d1 d2.
           do_GET (new_handler srv ''/latest/meta-data/rebalance-recommendation'' err) env1 = Inr h1 \<and>
           server h1 = srv \<and> console h1 = err \<and>
           do_GET (new_handler (server h1) ''/latest/meta-data/rebalance-recommendation'' (console h1))
             env2 = Inr h2 \<and>
           server h2 = srv \<and> console h2 = err \<and>
           body_of (wfile h1) = ''{"noticeTime": "'' @ s1 @ ''"}'' \<and>
           body_of (wfile h2) = ''{"noticeTime": "'' @ s2 @ ''"}'' \<and>
           parse_notice_time s1 = Some d1 \<and> parse_notice_time s2 = Some d2 \<and>
           instant d1 = instant (utcnow env1) + 120000000 \<and>
           instant d2 = instant (utcnow env2) + 120000000 \<and>
           instant d1 \<le> instant d2 \<and>
           (s1 = s2) = (utcnow env1 = utcnow env2)\<close>
proof -
  from assms(1,2) obtain h1 d1 s1 where
    g1: "do_GET (new_handler srv ''/latest/meta-data/rebalance-recommendation'' err) env1 = Inr h1"
    and w1: "wfile h1 = [StatusLine 200 ''OK'', HeaderLine ''Server'' (version_string env1),
                HeaderLine ''Date'' (date_time_string env1),
                HeaderLine ''Content-type'' ''application/json'', EndOfHeaders,
                Body (json_dumps [(''noticeTime'', s1)])]"
    and j1: \<open>json_dumps [(''noticeTime'', s1)] = ''{"noticeTime": "'' @ s1 @ ''"}''\<close>
    and s1: "s1 = isoformat d1 @ ''Z''" and d1: "valid_datetime d1"
    and i1: "instant d1 = instant (utcnow env1) + 120000000"
    and u1: "microsecond d1 = microsecond (utcnow env1)"
    and f1: "server h1 = srv" "console h1 = err"
    by (rule rebalance_answer)
  from assms(3,4) obtain h2 d2 s2 where
    g2: "do_GET (new_handler (server h1) ''/latest/meta-data/rebalance-recommendation'' (console h1))
           env2 = Inr h2"
    and w2: "wfile h2 = [StatusLine 200 ''OK'', HeaderLine ''Server'' (version_string env2),
                HeaderLine ''Date'' (date_time_string env2),
                HeaderLine ''Content-type'' ''application/json'', EndOfHeaders,
                Body (json_dumps [(''noticeTime'', s2)])]"
    and j2: \<open>json_dumps [(''noticeTime'', s2)] = ''{"noticeTime": "'' @ s2 @ ''"}''\<close>
    and s2: "s2 = isoformat d2 @ ''Z''" and d2: "valid_datetime d2"
    and i2: "instant d2 = instant (utcnow env2) + 120000000"
    and u2: "microsecond d2 = microsecond (utcnow env2)"
    and f2: "server h2 = server h1" "console h2 = console h1"
    by (rule rebalance_answer)
  have b1: \<open>body_of (wfile h1) = ''{"noticeTime": "'' @ s1 @ ''"}''\<close> unfolding w1 using j1 by simp
  have b2: \<open>body_of (wfile h2) = ''{"noticeTime": "'' @ s2 @ ''"}''\<close> unfolding w2 using j2 by simp
  have p1: "parse_notice_time s1 = Some d1" unfolding s1 by (rule isoformat_Z(2)[OF d1])
  have p2: "parse_notice_time s2 = Some d2" unfolding s2 by (rule isoformat_Z(2)[OF d2])
  have le: "instant d1 \<le> instant d2" using i1 i2 assms(5) by simp
  have eq: "(s1 = s2) = (utcnow env1 = utcnow env2)"
  proof
    assume "s1 = s2"
    then have "d1 = d2" using p1 p2 by simp
    then have "instant (utcnow env1) = instant (utcnow env2)" using i1 i2 by simp
    then show "utcnow env1 = utcnow env2" using assms(1,3) by (intro instant_inj)
  next
    assume "utcnow env1 = utcnow env2"
    then have "instant d1 = instant d2" using i1 i2 by simp
    then have "d1 = d2" using d1 d2 by (intro instant_inj)
    then show "s1 = s2" using s1 s2 by simp
  qed
  have f2': "server h2 = srv" "console h2 = err" using f1 f2 by simp_all
  show ?thesis using g1 f1 g2 f2' b1 b2 p1 p2 i1 i2 le eq by blast
qed

theorem successive_requests_witness:
  \<open>valid_datetime example_now \<and> before_overflow example_now \<and>
   valid_datetime (example_now\<lparr>second := 1\<rparr>) \<and> before_overflow (example_now\<lparr>second := 1\<rparr>) \<and>
   instant example_now \<le> instant (example_now\<lparr>second := 1\<rparr>) \<and>
   (\<exists>h1 h2 s1 s2 d1 d2.
      do_GET (new_handler example_server ''/latest/meta-data/rebalance-recommendation'' [])
        (example_env example_now) = Inr h1 \<and>
      server h1 = example_server \<and> console h1 = [] \<and>
      do_GET (new_handler (server h1) ''/latest/meta-data/rebalance-recommendation'' (console h1))
        (example_env (example_now\<lparr>second := 1\<rparr>)) = Inr h2 \<and>
      server h2 = example_server \<and> console h2 = [] \<and>
      body_of (wfile h1) = ''{"noticeTime": "'' @ s1 @ ''"}'' \<and>
      body_of (wfile h2) = ''{"noticeTime": "'' @ s2 @ ''"}'' \<and>
      parse_notice_time s1 = Some d1 \<and> parse_notice_time s2 = Some d2 \<and>
      instant d1 = instant example_now + 120000000 \<and>
      instant d2 = instant (example_now\<lparr>second := 1\<rparr>) + 120000000 \<and>
      instant d1 \<le> instant d2 \<and>
      (s1 = s2) = (example_now = example_now\<lparr>second := 1\<rparr>))\<close>
  using successive_requests
    [of "example_env example_now" "example_env (example_now\<lparr>second := 1\<rparr>)" example_server "[]"]
    example_valid example_before_overflow example_later_valid example_later_before_overflow
    example_later_le
  by simp

text \<open>
  Claim C6 as stated fails when the clock gives two successive requests the same
  reading: the two responses then carry the same noticeTime.
\<close>

theorem successive_requests_counterexample:
  \<open>instant (utcnow (example_env example_now)) \<le> instant (utcnow (example_env example_now)) \<and>
   map body_of (responses (main Bound
      [Request ''/latest/meta-data/rebalance-recommendation'' (example_env example_now),
       Request ''/latest/meta-data/rebalance-recommendation'' (example_env example_now)])) =
    [''{"noticeTime": "'' @ ''2024-01-01T00:02:00Z'' @ ''"}'',
     ''{"noticeTime": "'' @ ''2024-01-01T00:02:00Z'' @ ''"}'']\<close>
  using main_two_example_requests by simp

section \<open>Claims about routing\<close>

text \<open>
  Claim C5. The comparison of line 14 is made with the whole of \<^verbatim>\<open>self.path\<close>, query
  string included: the recognized path followed by \<^verbatim>\<open>?\<close> and any query string is
  answered with status 404 and an empty body, not with the 200 response.
\<close>

theorem query_string_404:
  "\<exists>h. do_GET (new_handler srv (''/latest/meta-data/rebalance-recommendation'' @ ''?'' @ q) err) env
          = Inr h \<and>
       status_code (wfile h) = Some 404 \<and> status_code (wfile h) \<noteq> Some 200 \<and>
       body_of (wfile h) = []"
proof -
  have "path (new_handler srv (''/latest/meta-data/rebalance-recommendation'' @ ''?'' @ q) err)
          \<noteq> rebalance_path"
    by (simp only: new_handler_fields parse_request_path_simps(2)) (simp add: rebalance_path_def)
  then show ?thesis
    by (simp add: do_GET_other_path status_code_def)
qed

text \<open>
  Claim C3, amended. The path that line 14 compares is the request target after the
  library has reduced two or more leading slashes to one. A GET request whose path, so
  read, is anything but exactly \<^verbatim>\<open>/latest/meta-data/rebalance-recommendation\<close> (no other
  normalisation: case and a trailing slash count) is answered with status 404 and an
  empty body. The handler returns normally (no exception reaches the server loop), writes
  nothing to the console, and leaves the server object as it was.
\<close>

theorem unrouted_path_404:
  assumes "parse_request_path target \<noteq> ''/latest/meta-data/rebalance-recommendation''"
  shows "\<exists>h. do_GET (new_handler srv target err) env = Inr h \<and>
             status_code (wfile h) = Some 404 \<and> body_of (wfile h) = [] \<and>
             header_value ''Content-Type'' (wfile h) = None \<and>
             console h = err \<and> server h = srv"
  using assms
  by (simp add: do_GET_other_path rebalance_path_def status_code_def ascii_lower_def)

theorem unrouted_path_404_witness:
  "parse_request_path ''/latest/meta-data/rebalance-recommendation/''
     \<noteq> ''/latest/meta-data/rebalance-recommendation'' \<and>
   (\<exists>h. do_GET (new_handler example_server ''/latest/meta-data/rebalance-recommendation/'' [])
           (example_env example_now) = Inr h \<and>
        status_code (wfile h) = Some 404 \<and> body_of (wfile h) = [] \<and>
        header_value ''Content-Type'' (wfile h) = None \<and>
        console h = [] \<and> server h = example_server)"
  using unrouted_path_404 [of "''/latest/meta-data/rebalance-recommendation/''" example_server "[]"
      "example_env example_now"]
  by (simp add: parse_request_path_examples)

text \<open>
  Claim C3 as stated fails for a target with two leading slashes: it is not exactly the
  recognized path, yet \<^verbatim>\<open>parse_request\<close> hands it to \<^verbatim>\<open>do_GET\<close> as the recognized path,
  and the answer is the 200 response.
\<close>

theorem unrouted_path_404_counterexample:
  \<open>''//latest/meta-data/rebalance-recommendation'' \<noteq> ''/latest/meta-data/rebalance-recommendation'' \<and>
   (\<exists>h. do_GET (new_handler example_server ''//latest/meta-data/rebalance-recommendation'' [])
           (example_env example_now) = Inr h \<and>
        status_code (wfile h) = Some 200 \<and>
        body_of (wfile h) = ''{"noticeTime": "'' @ ''2024-01-01T00:02:00Z'' @ ''"}'')\<close>
  using double_slash_response [of example_server "[]"]
  by (simp add: status_code_def)

section \<open>Claims about the response as a function of its inputs\<close>

text \<open>
  Claim C10, amended. The status line and the body of the response are a function of the
  request path and of the \<^verbatim>\<open>utcnow()\<close> reading alone. The headers carry two more values of
  the library, the Server string and the Date header (its own reading of the clock, to the
  second): two handler objects made for the same path, on whatever server state and
  console, write the same status line, headers and body under the same \<^verbatim>\<open>utcnow()\<close>
  reading and the same Server and Date values (or raise the same exception).
\<close>

theorem response_deterministic:
  assumes "utcnow env1 = utcnow env2"
  shows "map_sum id (\<lambda>h. (status_code (wfile h), body_of (wfile h)))
           (do_GET (new_handler srv1 target err1) env1) =
         map_sum id (\<lambda>h. (status_code (wfile h), body_of (wfile h)))
           (do_GET (new_handler srv2 target err2) env2) \<and>
         (version_string env1 = version_string env2 \<and>
          date_time_string env1 = date_time_string env2 \<longrightarrow>
            map_sum id wfile (do_GET (new_handler srv1 target err1) env1) =
            map_sum id wfile (do_GET (new_handler srv2 target err2) env2))"
proof -
  have "env1 = env2"
    if "version_string env1 = version_string env2" "date_time_string env1 = date_time_string env2"
    using assms that by (intro environment.equality) simp_all
  then show ?thesis
    using status_and_body[OF assms] whole_response by metis
qed

theorem response_deterministic_witness:
  "utcnow (example_env (example_now\<lparr>microsecond := 999999\<rparr>)) =
     utcnow ((example_env (example_now\<lparr>microsecond := 999999\<rparr>))
               \<lparr>date_time_string := ''Mon, 01 Jan 2024 00:00:01 GMT''\<rparr>) \<and>
   map_sum id (\<lambda>h. (status_code (wfile h), body_of (wfile h)))
     (do_GET (new_handler example_server ''/latest/meta-data/rebalance-recommendation'' [])
        (example_env (example_now\<lparr>microsecond := 999999\<rparr>))) =
   map_sum id (\<lambda>h. (status_code (wfile h), body_of (wfile h)))
     (do_GET (new_handler (example_server\<lparr>is_shut_down := True\<rparr>)
                ''/latest/meta-data/rebalance-recommendation'' [''x''])
        ((example_env (example_now\<lparr>microsecond := 999999\<rparr>))
           \<lparr>date_time_string := ''Mon, 01 Jan 2024 00:00:01 GMT''\<rparr>)) \<and>
   map_sum id wfile
     (do_GET (new_handler example_server ''/latest/meta-data/rebalance-recommendation'' [])
        (example_env (example_now\<lparr>microsecond := 999999\<rparr>))) =
   map_sum id wfile
     (do_GET (new_handler (example_server\<lparr>is_shut_down := True\<rparr>)
                ''/latest/meta-data/rebalance-recommendation'' [''x''])
        (example_env (example_now\<lparr>microsecond := 999999\<rparr>)))"
  using response_deterministic
    [of "example_env (example_now\<lparr>microsecond := 999999\<rparr>)"
        "(example_env (example_now\<lparr>microsecond := 999999\<rparr>))
           \<lparr>date_time_string := ''Mon, 01 Jan 2024 00:00:01 GMT''\<rparr>"
        example_server "''/latest/meta-data/rebalance-recommendation''" "[]"
        "example_server\<lparr>is_shut_down := True\<rparr>" "[''x'']"]
    response_deterministic
    [of "example_env (example_now\<lparr>microsecond := 999999\<rparr>)"
        "example_env (example_now\<lparr>microsecond := 999999\<rparr>)"
        example_server "''/latest/meta-data/rebalance-recommendation''" "[]"
        "example_server\<lparr>is_shut_down := True\<rparr>" "[''x'']"]
  by simp

text \<open>
  Claim C10 as stated fails: the \<^verbatim>\<open>utcnow()\<close> reading does not determine the Date header,
  which \<^verbatim>\<open>send_response\<close> takes from a later reading of the clock. Two invocations on
  the recognized path with the reading 2024-01-01T00:00:00.999999, one reaching line 22
  within the same second and one in the next, differ in that header.
\<close>

theorem response_deterministic_counterexample:
  "utcnow (example_env (example_now\<lparr>microsecond := 999999\<rparr>)) =
     utcnow ((example_env (example_now\<lparr>microsecond := 999999\<rparr>))
               \<lparr>date_time_string := ''Mon, 01 Jan 2024 00:00:01 GMT''\<rparr>) \<and>
   map_sum id wfile
     (do_GET (new_handler example_server ''/latest/meta-data/rebalance-recommendation'' [])
        (example_env (example_now\<lparr>microsecond := 999999\<rparr>))) \<noteq>
   map_sum id wfile
     (do_GET (new_handler example_server ''/latest/meta-data/rebalance-recommendation'' [])
        ((example_env (example_now\<lparr>microsecond := 999999\<rparr>))
           \<lparr>date_time_string := ''Mon, 01 Jan 2024 00:00:01 GMT''\<rparr>))"
proof -
  let ?A = "example_env (example_now\<lparr>microsecond := 999999\<rparr>)"
  let ?B = "?A\<lparr>date_time_string := ''Mon, 01 Jan 2024 00:00:01 GMT''\<rparr>"
  have vA: "valid_datetime (utcnow ?A)" "before_overflow (utcnow ?A)"
    using example_boundary_valid example_boundary_before_overflow by simp_all
  have vB: "valid_datetime (utcnow ?B)" "before_overflow (utcnow ?B)"
    using example_boundary_valid example_boundary_before_overflow by simp_all
  from vA obtain hA and dA :: datetime and sA where
    gA: "do_GET (new_handler example_server ''/latest/meta-data/rebalance-recommendation'' []) ?A = Inr hA"
    and wA: "wfile hA = [StatusLine 200 ''OK'', HeaderLine ''Server'' (version_string ?A),
                HeaderLine ''Date'' (date_time_string ?A),
                HeaderLine ''Content-type'' ''application/json'', EndOfHeaders,
                Body (json_dumps [(''noticeTime'', sA)])]"
    by (rule rebalance_answer)
  from vB obtain hB and dB :: datetime and sB where
    gB: "do_GET (new_handler example_server ''/latest/meta-data/rebalance-recommendation'' []) ?B = Inr hB"
    and wB: "wfile hB = [StatusLine 200 ''OK'', HeaderLine ''Server'' (version_string ?B),
                HeaderLine ''Date'' (date_time_string ?B),
                HeaderLine ''Content-type'' ''application/json'', EndOfHeaders,
                Body (json_dumps [(''noticeTime'', sB)])]"
    by (rule rebalance_answer)
  have "wfile hA \<noteq> wfile hB" unfolding wA wB by simp
  then show ?thesis unfolding gA gB by simp
qed

section \<open>Claims about the process\<close>

text \<open>
  Claim C7. An interrupt that arrives while the server is serving (after any requests, none
  of them an interrupt) ends the run with exit status 0. The run is the run up to the
  interrupt, with the status changed and the listener shut down: the loop has ended (the
  event \<^verbatim>\<open>__is_shut_down\<close> is set), \<^verbatim>\<open>server.shutdown()\<close> has set its flag and returned
  instead of blocking. So every request before the interrupt was answered, no request
  after it is, and nothing more is printed (no traceback: the interrupt is not an error).
  Up to the interrupt the process is serving and the listener is not shut down. (The
  script does not call \<^verbatim>\<open>server_close()\<close>: the listening socket itself is closed when the
  process exits.)
\<close>

theorem interrupt_exits_0:
  assumes "Interrupt \<notin> set reqs"
  shows "main Bound (reqs @ Interrupt # rest) =
           (main Bound reqs)
             \<lparr>status := Exited 0,
              listener := Some \<lparr>server_address = (''localhost'', 8080), shutdown_request = True,
                                is_shut_down = True\<rparr>\<rparr> \<and>
         status (main Bound reqs) = Serving \<and>
         listener (main Bound reqs) =
           Some \<lparr>server_address = (''localhost'', 8080), shutdown_request = False,
                 is_shut_down = False\<rparr> \<and>
         length (responses (main Bound reqs)) = length reqs"
proof -
  define p0 where "p0 = \<lparr>stdout = startup_lines, stderr = [], bind_attempts = 1, responses = [],
              status = Serving, listener = None\<rparr>"
  from serve_loop_requests[OF example_server_serving assms, of p0 rest] obtain p' where
    l: "serve_loop example_server p0 reqs = (Waiting, example_server, p')"
       "serve_loop example_server p0 (reqs @ Interrupt # rest)
          = (Raised KeyboardInterrupt, example_server, p')"
    and f: "status p' = status p0" "length (responses p') = length (responses p0) + length reqs"
    by auto
  have a: "main Bound reqs = p'\<lparr>listener := Some example_server\<rparr>"
    using main_Bound[of reqs, folded p0_def, unfolded l(1)] by simp
  have b: "main Bound (reqs @ Interrupt # rest) =
      p'\<lparr>listener := Some (example_server\<lparr>shutdown_request := True, is_shut_down := True\<rparr>),
         status := Exited 0\<rparr>"
    using main_Bound[of "reqs @ Interrupt # rest", folded p0_def, unfolded l(2)] by simp
  show ?thesis
    unfolding a b using f by (simp add: example_server_def p0_def)
qed

theorem interrupt_exits_0_witness:
  "Interrupt \<notin> set [Request ''/latest/meta-data/rebalance-recommendation'' (example_env example_now),
                      RequestUnder client_gone ''/'' (example_env example_now)] \<and>
   main Bound ([Request ''/latest/meta-data/rebalance-recommendation'' (example_env example_now),
                RequestUnder client_gone ''/'' (example_env example_now)]
               @ Interrupt # [Request ''/'' (example_env example_now)])
     = (main Bound [Request ''/latest/meta-data/rebalance-recommendation'' (example_env example_now),
                    RequestUnder client_gone ''/'' (example_env example_now)])
         \<lparr>status := Exited 0,
          listener := Some \<lparr>server_address = (''localhost'', 8080), shutdown_request = True,
                            is_shut_down = True\<rparr>\<rparr> \<and>
   status (main Bound [Request ''/latest/meta-data/rebalance-recommendation'' (example_env example_now),
                       RequestUnder client_gone ''/'' (example_env example_now)]) = Serving \<and>
   listener (main Bound [Request ''/latest/meta-data/rebalance-recommendation'' (example_env example_now),
                         RequestUnder client_gone ''/'' (example_env example_now)]) =
     Some \<lparr>server_address = (''localhost'', 8080), shutdown_request = False,
           is_shut_down = False\<rparr> \<and>
   length (responses (main Bound [Request ''/latest/meta-data/rebalance-recommendation'' (example_env example_now),
                                  RequestUnder client_gone ''/'' (example_env example_now)])) = 2"
  using interrupt_exits_0
    [of "[Request ''/latest/meta-data/rebalance-recommendation'' (example_env example_now),
          RequestUnder client_gone ''/'' (example_env example_now)]"
        "[Request ''/'' (example_env example_now)]"]
  by simp

text \<open>
  Claim C8. When the bind of line 36 fails (address in use, permission denied), the
  \<^verbatim>\<open>OSError\<close> is caught by nothing: the process ends with exit status 1, which is not 0,
  and with the traceback that names the error as its one line on standard error, after one
  bind attempt, without a listener, without having printed the startup lines or answered
  any request.
\<close>

theorem bind_failure_fatal:
  assumes "os \<noteq> Bound"
  shows "status (main os evs) = Exited 1 \<and> status (main os evs) \<noteq> Exited 0 \<and>
         stderr (main os evs) = [''Traceback (most recent call last): OSError''] \<and>
         bind_attempts (main os evs) = 1 \<and> listener (main os evs) = None \<and>
         stdout (main os evs) = [] \<and> responses (main os evs) = []"
  using assms by (simp add: main_bind_failure traceback_def)

theorem bind_failure_fatal_witness:
  "AddressInUse \<noteq> Bound \<and>
   status (main AddressInUse [Request ''/'' (example_env example_now)]) = Exited 1 \<and>
   status (main AddressInUse [Request ''/'' (example_env example_now)]) \<noteq> Exited 0 \<and>
   stderr (main AddressInUse [Request ''/'' (example_env example_now)])
     = [''Traceback (most recent call last): OSError''] \<and>
   bind_attempts (main AddressInUse [Request ''/'' (example_env example_now)]) = 1 \<and>
   listener (main AddressInUse [Request ''/'' (example_env example_now)]) = None \<and>
   stdout (main AddressInUse [Request ''/'' (example_env example_now)]) = [] \<and>
   responses (main AddressInUse [Request ''/'' (example_env example_now)]) = []"
  using bind_failure_fatal [of AddressInUse "[Request ''/'' (example_env example_now)]"]
  by simp

text \<open>
  Claim C9, amended. Per-request access logging is suppressed: \<^verbatim>\<open>log_message\<close>, and hence
  \<^verbatim>\<open>log_request\<close> and \<^verbatim>\<open>send_response\<close>, write nothing. What the handling of a request
  by \<^verbatim>\<open>do_GET\<close> adds to the console, whether it returns or raises, is what the
  interpreter writes at the \<^verbatim>\<open>utcnow()\<close> of line 16, on the recognized path: the
  \<^verbatim>\<open>DeprecationWarning\<close> from Python 3.12 on, nothing before. In a run whose bind succeeds
  and whose events are all undisturbed (every client stays connected until its response
  is written and, on the recognized path, the interpreter has no warning to write and the
  clock reading is before the last two minutes of the year 9999), standard output is the
  three startup lines and standard error stays empty.
\<close>

theorem console_output:
  assumes "\<forall>ev \<in> set evs. undisturbed ev"
  shows "log_message self format args = self \<and> log_request self code = self \<and>
         console (send_response self env code) = console self \<and>
         console (snd (do_GET_run self env)) =
           console self @ (if path self = ''/latest/meta-data/rebalance-recommendation''
                           then warnings self else []) \<and>
         stdout (main Bound evs) = startup_lines \<and> stderr (main Bound evs) = []"
  using main_quiet[OF assms]
  by (simp add: log_request_def log_message_def send_response_fields do_GET_run_console)

theorem console_output_witness:
  "undisturbed (Request ''/latest/meta-data/rebalance-recommendation'' (example_env example_now)) \<and>
   undisturbed (RequestUnder \<lparr>utcnow_warning = [], writes_accepted = Some 2\<rparr>
                  ''/latest/meta-data/rebalance-recommendation'' (example_env example_now)) \<and>
   undisturbed (Request ''/nonexistent'' (example_env example_now)) \<and>
   undisturbed (RequestUnder client_gone ''/nonexistent'' (example_env example_now)) \<and>
   undisturbed Interrupt \<and>
   log_message (new_handler example_server ''/nonexistent'' []) ''%s'' [''x'']
     = new_handler example_server ''/nonexistent'' [] \<and>
   log_request (new_handler example_server ''/nonexistent'' []) 404
     = new_handler example_server ''/nonexistent'' [] \<and>
   console (send_response (new_handler example_server ''/nonexistent'' []) (example_env example_now) 404)
     = [] \<and>
   console (snd (do_GET_run
      (new_handler_under python312_first_call example_server
         ''/latest/meta-data/rebalance-recommendation'' [])
      (example_env example_now)))
     = [''DeprecationWarning: datetime.datetime.utcnow() is deprecated''] \<and>
   stdout (main Bound
      [Request ''/latest/meta-data/rebalance-recommendation'' (example_env example_now),
       RequestUnder \<lparr>utcnow_warning = [], writes_accepted = Some 2\<rparr>
         ''/latest/meta-data/rebalance-recommendation'' (example_env example_now),
       Request ''/nonexistent'' (example_env example_now),
       RequestUnder client_gone ''/nonexistent'' (example_env example_now),
       Interrupt])
     = [''Mock IMDS server running on http://localhost:8080'',
        ''Test rebalance recommendation endpoint: http://localhost:8080/latest/meta-data/rebalance-recommendation'',
        ''Press Ctrl+C to stop''] \<and>
   stderr (main Bound
      [Request ''/latest/meta-data/rebalance-recommendation'' (example_env example_now),
       RequestUnder \<lparr>utcnow_warning = [], writes_accepted = Some 2\<rparr>
         ''/latest/meta-data/rebalance-recommendation'' (example_env example_now),
       Request ''/nonexistent'' (example_env example_now),
       RequestUnder client_gone ''/nonexistent'' (example_env example_now),
       Interrupt]) = []"
  using console_output
    [of "[Request ''/latest/meta-data/rebalance-recommendation'' (example_env example_now),
          RequestUnder \<lparr>utcnow_warning = [], writes_accepted = Some 2\<rparr>
            ''/latest/meta-data/rebalance-recommendation'' (example_env example_now),
          Request ''/nonexistent'' (example_env example_now),
          RequestUnder client_gone ''/nonexistent'' (example_env example_now),
          Interrupt]"
        "new_handler example_server ''/nonexistent'' []" "''%s''" "[''x'']" 404
        "example_env example_now"]
    console_output
    [of "[]" "new_handler_under python312_first_call example_server
         ''/latest/meta-data/rebalance-recommendation'' []" "''%s''" "[''x'']" 200
        "example_env example_now"]
    example_undisturbed
  by (simp add: startup_lines_def python312_first_call_def parse_request_path_simps)

text \<open>
  Claim C9 as stated fails, in four runs. A run whose bind fails prints the traceback of
  the \<^verbatim>\<open>OSError\<close> and none of the startup lines. On Python 3.12 the first request on the
  recognized path makes the interpreter write the \<^verbatim>\<open>DeprecationWarning\<close> of \<^verbatim>\<open>utcnow()\<close>
  to standard error, although the handler returns. A request on the recognized path whose
  client closes its socket after the headers makes \<^verbatim>\<open>wfile.write\<close> raise \<^verbatim>\<open>OSError\<close>,
  and one in the last two minutes of the year 9999 makes line 16 raise
  \<^verbatim>\<open>OverflowError\<close>: the server reports both with a traceback on standard error.
\<close>

theorem console_output_counterexample:
  "stdout (main AddressInUse []) = [] \<and>
   stderr (main AddressInUse []) = [''Traceback (most recent call last): OSError''] \<and>
   stderr (main Bound
      [RequestUnder python312_first_call ''/latest/meta-data/rebalance-recommendation''
         (example_env example_now)])
     = [''DeprecationWarning: datetime.datetime.utcnow() is deprecated''] \<and>
   stderr (main Bound
      [RequestUnder client_gone ''/latest/meta-data/rebalance-recommendation''
         (example_env example_now)])
     = [''Traceback (most recent call last): OSError''] \<and>
   stderr (main Bound
      [Request ''/latest/meta-data/rebalance-recommendation''
         (example_env \<lparr>year = 9999, month = 12, day = 31, hour = 23, minute = 58, second = 0,
                       microsecond = 0\<rparr>)])
     = [''Traceback (most recent call last): OverflowError'']"
proof -
  have a: "stdout (main AddressInUse []) = []"
    "stderr (main AddressInUse []) = [''Traceback (most recent call last): OSError'']"
    by (simp_all add: main_bind_failure traceback_def)
  have u: "utcnow_warning python312_first_call
             = [''DeprecationWarning: datetime.datetime.utcnow() is deprecated'']"
    "utcnow_warning client_gone = []" "utcnow_warning ordinary = []"
    by (simp_all add: python312_first_call_def client_gone_def ordinary_def)
  have w: "fst (do_GET_run (new_handler_under python312_first_call example_server
              ''/latest/meta-data/rebalance-recommendation'' []) (example_env example_now)) = None"
    using example_run[of python312_first_call example_server "[]"]
    by (simp add: python312_first_call_def)
  have b: "stderr (main Bound
      [RequestUnder python312_first_call ''/latest/meta-data/rebalance-recommendation''
         (example_env example_now)])
     = [''DeprecationWarning: datetime.datetime.utcnow() is deprecated'']"
    by (subst main_one_request(2)[of _ python312_first_call
          "''/latest/meta-data/rebalance-recommendation''" "example_env example_now"])
       (simp_all add: request_of_def w parse_request_path_simps u)
  have c: "stderr (main Bound
      [RequestUnder client_gone ''/latest/meta-data/rebalance-recommendation''
         (example_env example_now)])
     = [''Traceback (most recent call last): OSError'']"
    by (subst main_one_request(2)[of _ client_gone
          "''/latest/meta-data/rebalance-recommendation''" "example_env example_now"])
       (simp_all add: request_of_def client_gone_run parse_request_path_simps u traceback_def)
  have d: "stderr (main Bound
      [Request ''/latest/meta-data/rebalance-recommendation''
         (example_env \<lparr>year = 9999, month = 12, day = 31, hour = 23, minute = 58, second = 0,
                       microsecond = 0\<rparr>)])
     = [''Traceback (most recent call last): OverflowError'']"
    by (subst main_one_request(2)[of _ ordinary
          "''/latest/meta-data/rebalance-recommendation''"
          "example_env \<lparr>year = 9999, month = 12, day = 31, hour = 23, minute = 58, second = 0,
                       microsecond = 0\<rparr>"])
       (simp_all add: request_of_def overflow_run parse_request_path_simps u traceback_def)
  from a b c d show ?thesis by simp
qed

end
